theory Spec2Isabelle
  imports Main "HOL-Library.AList" "HOL-Library.Multiset"
begin

section \<open>JavaScript values and the hosted store\<close>

text \<open>
  Rows of the \<open>game_sessions\<close> table and the object literals handed to the query builder
  are JavaScript objects: a row is its primary key together with a map from column names
  to JSON values. An absent key and SQL \<open>NULL\<close> both read as "no number" below.
\<close>

datatype jsval =
    JNull
  | JBool bool
  | JNum int
  | JStr string
  | JArr "jsval list"
  | JObj "(string \<times> jsval) list"

type_synonym columns = "string \<rightharpoonup> jsval"

record session_row =
  row_id :: string
  row_cols :: columns

text \<open>JavaScript truthiness of a string, and of a string that may be \<open>null\<close> or \<open>undefined\<close>.\<close>

definition truthy :: "string \<Rightarrow> bool" where
  "truthy s = (s \<noteq> [])"

fun truthy_opt :: "string option \<Rightarrow> bool" where
  "truthy_opt None = False"
| "truthy_opt (Some s) = truthy s"

text \<open>\<open>String.prototype.startsWith\<close>.\<close>

definition startsWith :: "string \<Rightarrow> string \<Rightarrow> bool" where
  "startsWith s p = (take (length p) s = p)"

text \<open>The decimal rendering of a non-negative integer inside a template literal.\<close>

fun string_of_nat :: "nat \<Rightarrow> string" where
  "string_of_nat n =
     (if n < 10 then [''0123456789'' ! n]
      else string_of_nat (n div 10) @ [''0123456789'' ! (n mod 10)])"

declare string_of_nat.simps [simp del]

subsection \<open>src/config/supabase.js\<close>

record config =
  supabaseUrl :: "string option"
  supabaseKey :: "string option"

text \<open>
  \<open>supabase\<close> is a client when both credentials are truthy and \<open>null\<close> otherwise;
  \<open>isSupabaseConfigured\<close> is \<open>!!supabase\<close>.
\<close>

definition isSupabaseConfigured :: "config \<Rightarrow> bool" where
  "isSupabaseConfigured cfg = (truthy_opt (supabaseUrl cfg) \<and> truthy_opt (supabaseKey cfg))"

subsection \<open>The store behind the client\<close>

text \<open>
  The store is the table, the defaults its schema gives to columns an insert leaves out,
  and a count of the requests that reached it. What the network and the store decide for
  one call is an \<open>env\<close>: whether the call is answered without error, the key the store
  generates for an inserted row, the clock of the process (\<open>Date.now()\<close>, and
  \<open>new Date().toISOString()\<close>), and the digest the crypto library computes.
\<close>

record store =
  table :: "session_row list"
  defaults :: columns
  requests :: nat

record env =
  answered :: bool
  fresh_id :: string
  now :: nat
  now_iso :: string
  sha256_hex :: "string \<Rightarrow> string"

definition contacted :: "store \<Rightarrow> store" where
  "contacted st = st\<lparr>requests := Suc (requests st)\<rparr>"

text \<open>\<open>.insert(values).select()\<close>: the inserted rows, or an error (\<open>None\<close>).\<close>

definition db_insert :: "env \<Rightarrow> columns \<Rightarrow> store \<Rightarrow> session_row list option \<times> store" where
  "db_insert e values st =
     (if answered e then
        (let r = \<lparr>row_id = fresh_id e, row_cols = defaults st ++ values\<rparr>
         in (Some [r], contacted (st\<lparr>table := table st @ [r]\<rparr>)))
      else (None, contacted st))"

text \<open>\<open>.update(patch).eq('id', sessionId)\<close>: every row with that key is patched; the rows
  that were patched are what a following \<open>.select()\<close> returns.\<close>

definition apply_patch :: "string \<Rightarrow> columns \<Rightarrow> session_row \<Rightarrow> session_row" where
  "apply_patch sessionId patch r =
     (if row_id r = sessionId then r\<lparr>row_cols := row_cols r ++ patch\<rparr> else r)"

definition db_update :: "env \<Rightarrow> string \<Rightarrow> columns \<Rightarrow> store \<Rightarrow> session_row list option \<times> store" where
  "db_update e sessionId patch st =
     (if answered e then
        (let tbl = map (apply_patch sessionId patch) (table st)
         in (Some (filter (\<lambda>r. row_id r = sessionId) tbl), contacted (st\<lparr>table := tbl\<rparr>)))
      else (None, contacted st))"

text \<open>
  \<open>.order(column, { ascending, nullsFirst })\<close> on a numeric column. Without
  \<open>nullsFirst\<close> the store's default applies: nulls last when ascending, first when
  descending. Several \<open>.order\<close> calls compare lexicographically, first call first.
\<close>

record order_key =
  ord_column :: string
  ascending :: bool
  nullsFirst :: "bool option"

fun num_of :: "jsval option \<Rightarrow> int option" where
  "num_of (Some (JNum n)) = Some n"
| "num_of _ = None"

definition nulls_first :: "order_key \<Rightarrow> bool" where
  "nulls_first k = (case nullsFirst k of Some b \<Rightarrow> b | None \<Rightarrow> \<not> ascending k)"

fun val_le :: "order_key \<Rightarrow> int option \<Rightarrow> int option \<Rightarrow> bool" where
  "val_le k None None = True"
| "val_le k None (Some y) = nulls_first k"
| "val_le k (Some x) None = (\<not> nulls_first k)"
| "val_le k (Some x) (Some y) = (if ascending k then x \<le> y else y \<le> x)"

fun rows_le :: "order_key list \<Rightarrow> session_row \<Rightarrow> session_row \<Rightarrow> bool" where
  "rows_le [] a b = True"
| "rows_le (k # ks) a b =
     (let x = num_of (row_cols a (ord_column k)); y = num_of (row_cols b (ord_column k))
      in if x = y then rows_le ks a b else val_le k x y)"

text \<open>A stable insertion sort for a given "no later than" test.\<close>

fun insert_wrt :: "('a \<Rightarrow> 'a \<Rightarrow> bool) \<Rightarrow> 'a \<Rightarrow> 'a list \<Rightarrow> 'a list" where
  "insert_wrt le x [] = [x]"
| "insert_wrt le x (y # ys) = (if le x y then x # y # ys else y # insert_wrt le x ys)"

definition sort_wrt :: "('a \<Rightarrow> 'a \<Rightarrow> bool) \<Rightarrow> 'a list \<Rightarrow> 'a list" where
  "sort_wrt le xs = foldr (insert_wrt le) xs []"

text \<open>
  \<open>.select(...)\<close> with a row filter, the \<open>.order\<close> keys and an optional \<open>.limit\<close>:
  the matching rows, ordered, cut to the limit.
\<close>

definition db_select ::
  "env \<Rightarrow> (session_row \<Rightarrow> bool) \<Rightarrow> order_key list \<Rightarrow> nat option \<Rightarrow> store
     \<Rightarrow> session_row list option \<times> store" where
  "db_select e keep order lim st =
     (if answered e then
        (let rows = sort_wrt (rows_le order) (filter keep (table st))
         in (Some (case lim of None \<Rightarrow> rows | Some n \<Rightarrow> take n rows), contacted st))
      else (None, contacted st))"

text \<open>\<open>.single()\<close>: exactly one row, anything else is an error.\<close>

fun single :: "session_row list option \<Rightarrow> session_row option" where
  "single (Some [r]) = Some r"
| "single _ = None"

text \<open>The row stored under a key, if any.\<close>

definition row_of :: "store \<Rightarrow> string \<Rightarrow> session_row option" where
  "row_of st sessionId = find (\<lambda>r. row_id r = sessionId) (table st)"

text \<open>One column of the row stored under a key.\<close>

definition cell :: "store \<Rightarrow> string \<Rightarrow> string \<Rightarrow> jsval option" where
  "cell st sessionId c = (case row_of st sessionId of Some r \<Rightarrow> row_cols r c | None \<Rightarrow> None)"

section \<open>GameSessionService with round saves (src/unnamed/part_000)\<close>

text \<open>The object returned when no store is configured or the insert fails.\<close>

definition local_session :: "env \<Rightarrow> string \<Rightarrow> string \<Rightarrow> session_row" where
  "local_session e name_key playerName =
     \<lparr>row_id = ''local-'' @ string_of_nat (now e), row_cols = [name_key \<mapsto> JStr playerName]\<rparr>"

definition default_avatar :: "string \<Rightarrow> string" where
  "default_avatar playerName = ''https://api.dicebear.com/7.x/bottts/svg?seed='' @ playerName"

definition createSession ::
  "config \<Rightarrow> env \<Rightarrow> store \<Rightarrow> string \<Rightarrow> string option \<Rightarrow> session_row \<times> store" where
  "createSession cfg e st playerName avatarUrl =
     (if \<not> isSupabaseConfigured cfg then (local_session e ''player_name'' playerName, st)
      else
        (case db_insert e
           [''player_name'' \<mapsto> JStr playerName,
            ''avatar_url'' \<mapsto>
               JStr (case avatarUrl of
                       Some a \<Rightarrow> if truthy a then a else default_avatar playerName
                     | None \<Rightarrow> default_avatar playerName),
            ''total_score'' \<mapsto> JNum 0,
            ''rounds_completed'' \<mapsto> JNum 0,
            ''current_round'' \<mapsto> JNum 1,
            ''status'' \<mapsto> JStr ''Playing'',
            ''round1_data'' \<mapsto> JArr [],
            ''round2_data'' \<mapsto> JArr [],
            ''round3_data'' \<mapsto> JArr []] st of
           (res, st') \<Rightarrow>
             (case single res of
                Some data \<Rightarrow> (data, st')
              | None \<Rightarrow> (local_session e ''player_name'' playerName, st'))))"

definition updateSession ::
  "config \<Rightarrow> env \<Rightarrow> store \<Rightarrow> string \<Rightarrow> columns \<Rightarrow> session_row option \<times> store" where
  "updateSession cfg e st sessionId updates =
     (if \<not> isSupabaseConfigured cfg \<or> startsWith sessionId ''local-'' then (None, st)
      else
        (case db_update e sessionId (updates ++ [''updated_at'' \<mapsto> JStr (now_iso e)]) st of
           (res, st') \<Rightarrow> (single res, st')))"

definition saveRound1Data ::
  "config \<Rightarrow> env \<Rightarrow> store \<Rightarrow> string \<Rightarrow> jsval \<Rightarrow> int \<Rightarrow> int \<Rightarrow> bool \<times> store" where
  "saveRound1Data cfg e st sessionId subRoundsData totalScore totalTime =
     (if \<not> isSupabaseConfigured cfg \<or> startsWith sessionId ''local-'' then (False, st)
      else
        (case db_update e sessionId
           [''round1_data'' \<mapsto> subRoundsData,
            ''round1_score'' \<mapsto> JNum totalScore,
            ''round1_time'' \<mapsto> JNum totalTime,
            ''total_score'' \<mapsto> JNum totalScore,
            ''rounds_completed'' \<mapsto> JNum 1,
            ''current_round'' \<mapsto> JNum 2,
            ''status'' \<mapsto> JStr ''Round 2''] st of
           (res, st') \<Rightarrow> (res \<noteq> None, st')))"

definition saveRound2Data ::
  "config \<Rightarrow> env \<Rightarrow> store \<Rightarrow> string \<Rightarrow> jsval \<Rightarrow> int \<Rightarrow> int \<Rightarrow> int \<Rightarrow> bool \<times> store" where
  "saveRound2Data cfg e st sessionId roundData roundScore roundTime previousTotalScore =
     (if \<not> isSupabaseConfigured cfg \<or> startsWith sessionId ''local-'' then (False, st)
      else
        (let newTotalScore = previousTotalScore + roundScore
         in case db_update e sessionId
              [''round2_data'' \<mapsto> roundData,
               ''round2_score'' \<mapsto> JNum roundScore,
               ''round2_time'' \<mapsto> JNum roundTime,
               ''total_score'' \<mapsto> JNum newTotalScore,
               ''rounds_completed'' \<mapsto> JNum 2,
               ''current_round'' \<mapsto> JNum 3,
               ''status'' \<mapsto> JStr ''Round 3''] st of
              (res, st') \<Rightarrow> (res \<noteq> None, st')))"

definition saveRound3Data ::
  "config \<Rightarrow> env \<Rightarrow> store \<Rightarrow> string \<Rightarrow> jsval \<Rightarrow> int \<Rightarrow> int \<Rightarrow> int \<Rightarrow> int \<Rightarrow> bool \<times> store" where
  "saveRound3Data cfg e st sessionId roundData roundScore roundTime previousTotalScore totalGameTime =
     (if \<not> isSupabaseConfigured cfg \<or> startsWith sessionId ''local-'' then (False, st)
      else
        (let newTotalScore = previousTotalScore + roundScore
         in case db_update e sessionId
              [''round3_data'' \<mapsto> roundData,
               ''round3_score'' \<mapsto> JNum roundScore,
               ''round3_time'' \<mapsto> JNum roundTime,
               ''total_score'' \<mapsto> JNum newTotalScore,
               ''total_time'' \<mapsto> JNum totalGameTime,
               ''rounds_completed'' \<mapsto> JNum 3,
               ''current_round'' \<mapsto> JNum 3,
               ''status'' \<mapsto> JStr ''Finished''] st of
              (res, st') \<Rightarrow> (res \<noteq> None, st')))"

definition getLeaderboard :: "config \<Rightarrow> env \<Rightarrow> store \<Rightarrow> nat \<Rightarrow> session_row list \<times> store" where
  "getLeaderboard cfg e st limit =
     (if \<not> isSupabaseConfigured cfg then ([], st)
      else
        (case db_select e (\<lambda>r. True)
           [\<lparr>ord_column = ''total_score'', ascending = False, nullsFirst = None\<rparr>,
            \<lparr>ord_column = ''total_time'', ascending = True, nullsFirst = Some False\<rparr>]
           (Some limit) st of
           (Some data, st') \<Rightarrow> (data, st')
         | (None, st') \<Rightarrow> ([], st')))"

definition getSession :: "config \<Rightarrow> env \<Rightarrow> store \<Rightarrow> string \<Rightarrow> session_row option \<times> store" where
  "getSession cfg e st sessionId =
     (if \<not> isSupabaseConfigured cfg \<or> startsWith sessionId ''local-'' then (None, st)
      else
        (case db_select e (\<lambda>r. row_id r = sessionId) [] None st of
           (res, st') \<Rightarrow> (single res, st')))"

section \<open>GameSessionService of the socket server (src/unnamed/part_001)\<close>

text \<open>JavaScript truthiness of a value that may be absent, and \<open>v || d\<close>.\<close>

fun js_truthy :: "jsval option \<Rightarrow> bool" where
  "js_truthy None = False"
| "js_truthy (Some JNull) = False"
| "js_truthy (Some (JBool b)) = b"
| "js_truthy (Some (JNum n)) = (n \<noteq> 0)"
| "js_truthy (Some (JStr s)) = (s \<noteq> [])"
| "js_truthy (Some (JArr xs)) = True"
| "js_truthy (Some (JObj kvs)) = True"

definition js_or :: "jsval option \<Rightarrow> jsval \<Rightarrow> jsval" where
  "js_or v d = (case v of Some x \<Rightarrow> if js_truthy v then x else d | None \<Rightarrow> d)"

definition hashApiKey :: "env \<Rightarrow> string option \<Rightarrow> string option" where
  "hashApiKey e apiKey =
     (case apiKey of
        None \<Rightarrow> None
      | Some k \<Rightarrow> if truthy k then Some (take 64 (sha256_hex e k)) else None)"

definition createSession_v1 ::
  "config \<Rightarrow> env \<Rightarrow> store \<Rightarrow> string \<Rightarrow> string option \<Rightarrow> session_row \<times> store" where
  "createSession_v1 cfg e st playerName apiKey =
     (if \<not> isSupabaseConfigured cfg then (local_session e ''playerName'' playerName, st)
      else
        (case db_insert e
           [''player_name'' \<mapsto> JStr playerName,
            ''api_key_hash'' \<mapsto> (case hashApiKey e apiKey of Some h \<Rightarrow> JStr h | None \<Rightarrow> JNull)] st of
           (res, st') \<Rightarrow>
             (case single res of
                Some data \<Rightarrow> (data, st')
              | None \<Rightarrow> (local_session e ''playerName'' playerName, st'))))"

definition round_patch :: "int \<Rightarrow> columns \<Rightarrow> columns" where
  "round_patch roundNumber roundData =
     (if roundNumber = 1 then
        [''round1_prompts'' \<mapsto> js_or (roundData ''prompts'') (JArr []),
         ''round1_outputs'' \<mapsto> js_or (roundData ''outputs'') (JArr []),
         ''round1_scores'' \<mapsto> js_or (roundData ''scores'') (JArr []),
         ''round1_time'' \<mapsto> js_or (roundData ''timeTaken'') (JNum 0)]
      else if roundNumber = 2 then
        [''round2_prompts'' \<mapsto> js_or (roundData ''prompts'') (JArr []),
         ''round2_outputs'' \<mapsto> js_or (roundData ''outputs'') (JArr []),
         ''round2_score'' \<mapsto> js_or (roundData ''score'') (JNum 0),
         ''round2_time'' \<mapsto> js_or (roundData ''timeTaken'') (JNum 0)]
      else if roundNumber = 3 then
        [''round3_prompts'' \<mapsto> js_or (roundData ''prompts'') (JArr []),
         ''round3_outputs'' \<mapsto> js_or (roundData ''outputs'') (JArr []),
         ''round3_score'' \<mapsto> js_or (roundData ''score'') (JNum 0),
         ''round3_time'' \<mapsto> js_or (roundData ''timeTaken'') (JNum 0)]
      else Map.empty)"

definition updateRoundData ::
  "config \<Rightarrow> env \<Rightarrow> store \<Rightarrow> string \<Rightarrow> int \<Rightarrow> columns \<Rightarrow> session_row option \<times> store" where
  "updateRoundData cfg e st sessionId roundNumber roundData =
     (if \<not> isSupabaseConfigured cfg \<or> startsWith sessionId ''local-'' then (None, st)
      else
        (case db_update e sessionId (round_patch roundNumber roundData) st of
           (res, st') \<Rightarrow> (single res, st')))"

definition completeSession ::
  "config \<Rightarrow> env \<Rightarrow> store \<Rightarrow> string \<Rightarrow> columns \<Rightarrow> session_row option \<times> store" where
  "completeSession cfg e st sessionId finalData =
     (if \<not> isSupabaseConfigured cfg \<or> startsWith sessionId ''local-'' then (None, st)
      else
        (case db_update e sessionId
           [''total_score'' \<mapsto> js_or (finalData ''totalScore'') (JNum 0),
            ''total_time'' \<mapsto> js_or (finalData ''totalTime'') (JNum 0),
            ''completed'' \<mapsto> JBool True] st of
           (res, st') \<Rightarrow> (single res, st')))"

text \<open>The four columns the leaderboard query of this service selects.\<close>

definition leaderboard_columns :: "session_row \<Rightarrow> columns" where
  "leaderboard_columns r =
     row_cols r |` {''player_name'', ''total_score'', ''total_time'', ''created_at''}"

definition getLeaderboard_v1 :: "config \<Rightarrow> env \<Rightarrow> store \<Rightarrow> nat \<Rightarrow> columns list \<times> store" where
  "getLeaderboard_v1 cfg e st limit =
     (if \<not> isSupabaseConfigured cfg then ([], st)
      else
        (case db_select e (\<lambda>r. row_cols r ''completed'' = Some (JBool True))
           [\<lparr>ord_column = ''total_score'', ascending = False, nullsFirst = None\<rparr>,
            \<lparr>ord_column = ''total_time'', ascending = True, nullsFirst = None\<rparr>]
           (Some limit) st of
           (Some data, st') \<Rightarrow> (map leaderboard_columns data, st')
         | (None, st') \<Rightarrow> ([], st')))"

definition getSession_v1 :: "config \<Rightarrow> env \<Rightarrow> store \<Rightarrow> string \<Rightarrow> session_row option \<times> store" where
  "getSession_v1 cfg e st sessionId =
     (if \<not> isSupabaseConfigured cfg \<or> startsWith sessionId ''local-'' then (None, st)
      else
        (case db_select e (\<lambda>r. row_id r = sessionId) [] None st of
           (res, st') \<Rightarrow> (single res, st')))"

section \<open>The socket server (src/unnamed/part_003)\<close>

text \<open>
  A player profile is the object literal the \<open>join\<close> handler builds; the payload of
  \<open>join\<close> shares its first two fields. A leaderboard entry is a profile with its rank.
\<close>

record identity =
  username :: string
  avatarUrl :: "string option"

record player = identity +
  score :: int
  status :: string
  isBot :: bool

record ranked_player = player +
  rank :: nat

record userData = identity +
  apiKey :: "string option"

text \<open>
  The payload of \<open>update_progress\<close> is a partial profile: the fields it carries, in
  order. \<open>{ ...player, ...data }\<close> overwrites exactly those.
\<close>

datatype field =
    Username string
  | AvatarUrl "string option"
  | Score int
  | Status string
  | IsBot bool

fun assign :: "field \<Rightarrow> player \<Rightarrow> player" where
  "assign (Username v) p = p\<lparr>username := v\<rparr>"
| "assign (AvatarUrl v) p = p\<lparr>avatarUrl := v\<rparr>"
| "assign (Score v) p = p\<lparr>score := v\<rparr>"
| "assign (Status v) p = p\<lparr>status := v\<rparr>"
| "assign (IsBot v) p = p\<lparr>isBot := v\<rparr>"

definition spread :: "player \<Rightarrow> field list \<Rightarrow> player" where
  "spread p data = fold assign data p"

text \<open>
  A \<open>join\<close> handler that has called \<open>createSession\<close> is suspended at its \<open>await\<close> until
  the promise resolves: what it holds then is its socket, its \<open>playerKey\<close> and the
  session the promise resolves to.
\<close>

record waiting_join =
  waiting_socket :: string
  waiting_key :: string
  waiting_session :: session_row

text \<open>
  The three module-level maps, the store the service talks to, and the \<open>join\<close> handlers
  suspended at their \<open>await\<close>, oldest first. \<open>persistentPlayers\<close> is kept in insertion
  order, as a JavaScript \<open>Map\<close> is: \<open>values()\<close> enumerates in that order, and \<open>set\<close> on a
  known key keeps the key's place.
\<close>

record server =
  socketPlayers :: "string \<rightharpoonup> string"
  persistentPlayers :: "(string \<times> player) list"
  playerSessions :: "string \<rightharpoonup> string"
  database :: store
  awaiting :: "waiting_join list"

datatype message =
    leaderboard_update "ranked_player list"
  | session_created string

datatype emit =
    ToAll message
  | ToSocket string message

text \<open>
  \<open>Array.prototype.sort\<close> with a comparator is stable: an element goes before another
  when the comparator is not positive, and equal elements keep their order.
\<close>

definition js_sort :: "('a \<Rightarrow> 'a \<Rightarrow> int) \<Rightarrow> 'a list \<Rightarrow> 'a list" where
  "js_sort cmp xs = sort_wrt (\<lambda>a b. cmp a b \<le> 0) xs"

definition with_rank :: "nat \<times> player \<Rightarrow> ranked_player" where
  "with_rank ip =
     (case ip of (index, p) \<Rightarrow>
        \<lparr>username = username p, avatarUrl = avatarUrl p, score = score p,
         status = status p, isBot = isBot p, rank = index + 1\<rparr>)"

definition allPlayers :: "server \<Rightarrow> ranked_player list" where
  "allPlayers s =
     map with_rank
       (enumerate 0 (js_sort (\<lambda>a b. score b - score a) (map snd (persistentPlayers s))))"

definition broadcastLeaderboard :: "server \<Rightarrow> emit list" where
  "broadcastLeaderboard s = [ToAll (leaderboard_update (allPlayers s))]"

definition on_connection :: "string \<Rightarrow> server \<Rightarrow> server \<times> emit list" where
  "on_connection socket_id s = (s, broadcastLeaderboard s)"

text \<open>
  The \<open>join\<close> handler is \<open>async\<close>. It runs from the event to its end when a session id is
  stored for the name. Otherwise it calls \<open>createSession\<close> and is suspended at the \<open>await\<close>
  until the promise resolves; with a store configured the insert is on its way meanwhile,
  and other events are handled before the handler goes on. The insert takes effect in the
  store when it is sent; its answer reaches the handler when it resumes.
\<close>

definition on_join ::
  "config \<Rightarrow> env \<Rightarrow> string \<Rightarrow> userData \<Rightarrow> server \<Rightarrow> server \<times> emit list" where
  "on_join cfg e socket_id u s =
     (let playerKey = username u;
          player0 = (case map_of (persistentPlayers s) playerKey of
                       Some p \<Rightarrow> p
                     | None \<Rightarrow> \<lparr>username = username u, avatarUrl = avatarUrl u, score = 0,
                                status = ''Just Joined'', isBot = False\<rparr>);
          player = (if truthy_opt (avatarUrl u) then player0\<lparr>avatarUrl := avatarUrl u\<rparr>
                    else player0);
          s1 = s\<lparr>persistentPlayers := AList.update playerKey player (persistentPlayers s),
                 socketPlayers := (socketPlayers s)(socket_id \<mapsto> playerKey)\<rparr>
      in case playerSessions s1 playerKey of
           None \<Rightarrow>
             (case createSession_v1 cfg e (database s1) (username u) (apiKey u) of
                (session, db') \<Rightarrow>
                  (s1\<lparr>database := db',
                      awaiting := awaiting s1 @
                        [\<lparr>waiting_socket = socket_id, waiting_key = playerKey,
                          waiting_session = session\<rparr>]\<rparr>, []))
         | Some sessionId \<Rightarrow>
             (s1, ToSocket socket_id (session_created sessionId) # broadcastLeaderboard s1))"

text \<open>
  The rest of the \<open>join\<close> handler, run when the promise of the \<open>i\<close>-th suspended handler
  resolves: the session id is stored under the name, sent to the socket, and the
  leaderboard is broadcast.
\<close>

definition on_join_resumed :: "nat \<Rightarrow> server \<Rightarrow> server \<times> emit list" where
  "on_join_resumed i s =
     (if i < length (awaiting s) then
        (let w = awaiting s ! i;
             s2 = s\<lparr>playerSessions :=
                       (playerSessions s)(waiting_key w \<mapsto> row_id (waiting_session w)),
                    awaiting := take i (awaiting s) @ drop (Suc i) (awaiting s)\<rparr>
         in (s2, ToSocket (waiting_socket w) (session_created (row_id (waiting_session w)))
                   # broadcastLeaderboard s2))
      else (s, []))"

definition on_update_progress :: "string \<Rightarrow> field list \<Rightarrow> server \<Rightarrow> server \<times> emit list" where
  "on_update_progress socket_id data s =
     (case socketPlayers s socket_id of
        None \<Rightarrow> (s, [])
      | Some playerKey \<Rightarrow>
          if truthy playerKey then
            (case map_of (persistentPlayers s) playerKey of
               None \<Rightarrow> (s, [])
             | Some p \<Rightarrow>
                 (let s' = s\<lparr>persistentPlayers :=
                               AList.update playerKey (spread p data) (persistentPlayers s)\<rparr>
                  in (s', broadcastLeaderboard s')))
          else (s, []))"

definition on_round_complete ::
  "config \<Rightarrow> env \<Rightarrow> string \<Rightarrow> int \<Rightarrow> columns \<Rightarrow> server \<Rightarrow> server \<times> emit list" where
  "on_round_complete cfg e socket_id roundNumber data s =
     (case socketPlayers s socket_id of
        None \<Rightarrow> (s, [])
      | Some playerKey \<Rightarrow>
          if truthy playerKey then
            (case playerSessions s playerKey of
               None \<Rightarrow> (s, [])
             | Some sessionId \<Rightarrow>
                 if truthy sessionId then
                   (case updateRoundData cfg e (database s) sessionId roundNumber
                           (data |` {''prompts'', ''outputs'', ''scores'', ''score'', ''timeTaken''}) of
                      (res, db') \<Rightarrow> (s\<lparr>database := db'\<rparr>, []))
                 else (s, []))
          else (s, []))"

definition on_game_complete ::
  "config \<Rightarrow> env \<Rightarrow> string \<Rightarrow> columns \<Rightarrow> server \<Rightarrow> server \<times> emit list" where
  "on_game_complete cfg e socket_id data s =
     (case socketPlayers s socket_id of
        None \<Rightarrow> (s, [])
      | Some playerKey \<Rightarrow>
          if truthy playerKey then
            (case playerSessions s playerKey of
               None \<Rightarrow> (s, [])
             | Some sessionId \<Rightarrow>
                 if truthy sessionId then
                   (case completeSession cfg e (database s) sessionId
                           (data |` {''totalScore'', ''totalTime''}) of
                      (res, db') \<Rightarrow> (s\<lparr>database := db'\<rparr>, []))
                 else (s, []))
          else (s, []))"

definition on_disconnect :: "string \<Rightarrow> server \<Rightarrow> server \<times> emit list" where
  "on_disconnect socket_id s =
     (case socketPlayers s socket_id of
        None \<Rightarrow> (s, [])
      | Some playerKey \<Rightarrow>
          if truthy playerKey then (s\<lparr>socketPlayers := (socketPlayers s)(socket_id := None)\<rparr>, [])
          else (s, []))"

text \<open>
  What the event loop takes up, one at a time: an event a socket delivers, with what the
  outside world decides for it, or the promise of a suspended \<open>join\<close> handler resolving.
  The handlers of \<open>round_complete\<close> and \<open>game_complete\<close> await their store call too, but
  nothing follows that \<open>await\<close> except a log line, so they are taken in one step.
\<close>

datatype event =
    Connection string
  | Join env string userData
  | JoinResumed nat
  | UpdateProgress string "field list"
  | RoundComplete env string int columns
  | GameComplete env string columns
  | Disconnect string

fun handle :: "config \<Rightarrow> event \<Rightarrow> server \<Rightarrow> server \<times> emit list" where
  "handle cfg (Connection c) s = on_connection c s"
| "handle cfg (Join e c u) s = on_join cfg e c u s"
| "handle cfg (JoinResumed i) s = on_join_resumed i s"
| "handle cfg (UpdateProgress c d) s = on_update_progress c d s"
| "handle cfg (RoundComplete e c n d) s = on_round_complete cfg e c n d s"
| "handle cfg (GameComplete e c d) s = on_game_complete cfg e c d s"
| "handle cfg (Disconnect c) s = on_disconnect c s"

fun run :: "config \<Rightarrow> event list \<Rightarrow> server \<Rightarrow> server" where
  "run cfg [] s = s"
| "run cfg (ev # evs) s = run cfg evs (fst (handle cfg ev s))"

text \<open>The steps of \<open>join\<close> handlers: the event and the resumption.\<close>

fun is_join :: "event \<Rightarrow> bool" where
  "is_join (Join e c u) = True"
| "is_join (JoinResumed i) = True"
| "is_join ev = False"

text \<open>The state at process start: three empty maps, no handler suspended.\<close>

definition boot :: "store \<Rightarrow> server" where
  "boot st =
     \<lparr>socketPlayers = Map.empty, persistentPlayers = [], playerSessions = Map.empty,
      database = st, awaiting = []\<rparr>"

section \<open>Orderings as the specification words them\<close>

text \<open>
  The live leaderboard as specified: score descending, ties broken by ascending elapsed
  time. A profile carries no elapsed time, so the time of each player is given from
  outside, by display name.
\<close>

definition score_then_time :: "(string \<Rightarrow> int) \<Rightarrow> ranked_player \<Rightarrow> ranked_player \<Rightarrow> bool" where
  "score_then_time elapsed a b =
     (score b < score a \<or> (score a = score b \<and> elapsed (username a) \<le> elapsed (username b)))"

text \<open>
  The persisted leaderboard as specified: total score descending, ties broken by ascending
  total time. A missing score sorts first and a missing time last, as the store does
  for a descending and an ascending key.
\<close>

fun time_no_later :: "int option \<Rightarrow> int option \<Rightarrow> bool" where
  "time_no_later (Some x) (Some y) = (x \<le> y)"
| "time_no_later t None = True"
| "time_no_later None (Some y) = False"

definition by_score_then_time :: "columns \<Rightarrow> columns \<Rightarrow> bool" where
  "by_score_then_time a b =
     (case (num_of (a ''total_score''), num_of (b ''total_score'')) of
        (Some x, Some y) \<Rightarrow>
          y < x \<or> (x = y \<and> time_no_later (num_of (a ''total_time'')) (num_of (b ''total_time'')))
      | (None, None) \<Rightarrow> time_no_later (num_of (a ''total_time'')) (num_of (b ''total_time''))
      | (None, Some y) \<Rightarrow> True
      | (Some x, None) \<Rightarrow> False)"

text \<open>
  The progression of a session: \<open>Playing\<close>, \<open>Round 2\<close>, \<open>Round 3\<close>, \<open>Finished\<close>, numbered
  in this order; 0 is any other value.
\<close>

definition stage :: "jsval option \<Rightarrow> nat" where
  "stage v =
     (if v = Some (JStr ''Playing'') then 1
      else if v = Some (JStr ''Round 2'') then 2
      else if v = Some (JStr ''Round 3'') then 3
      else if v = Some (JStr ''Finished'') then 4
      else 0)"

text \<open>
  One profile per display name: the keys of the scoreboard are distinct, and every profile
  carries the name it is stored under.
\<close>

definition one_profile_per_name :: "server \<Rightarrow> bool" where
  "one_profile_per_name s =
     (distinct (map fst (persistentPlayers s))
      \<and> map (\<lambda>kp. username (snd kp)) (persistentPlayers s) = map fst (persistentPlayers s))"

section \<open>Sample inputs\<close>

definition offline :: config where
  "offline = \<lparr>supabaseUrl = None, supabaseKey = None\<rparr>"

definition online :: config where
  "online = \<lparr>supabaseUrl = Some ''https://db.example'', supabaseKey = Some ''anon''\<rparr>"

definition fine :: env where
  "fine = \<lparr>answered = True, fresh_id = ''7f3a'', now = 1700000000000,
            now_iso = ''2023-11-14T22:13:20.000Z'', sha256_hex = (\<lambda>k. k)\<rparr>"

definition down :: env where
  "down = fine\<lparr>answered := False\<rparr>"

definition empty_store :: store where
  "empty_store = \<lparr>table = [], defaults = Map.empty, requests = 0\<rparr>"

definition alice :: userData where
  "alice = \<lparr>username = ''alice'', avatarUrl = None, apiKey = None\<rparr>"

definition bob :: userData where
  "bob = \<lparr>username = ''bob'', avatarUrl = None, apiKey = None\<rparr>"

definition slow_alice :: "string \<Rightarrow> int" where
  "slow_alice n = (if n = ''alice'' then 9000 else 1000)"

text \<open>Two players who joined one after the other and have not scored yet.\<close>

definition two_joined :: server where
  "two_joined = run offline [Join down ''s1'' alice, Join down ''s2'' bob] (boot empty_store)"

text \<open>
  A store holding the one session that \<open>createSession\<close> has just inserted, and what the
  round saves make of it, in order and out of order.
\<close>

definition one_session :: store where
  "one_session = snd (createSession online fine empty_store ''alice'' None)"

definition after_round1 :: store where
  "after_round1 = snd (saveRound1Data online fine one_session ''7f3a'' (JArr []) 10 5000)"

definition after_round2 :: store where
  "after_round2 = snd (saveRound2Data online fine after_round1 ''7f3a'' (JArr []) 15 3000 10)"

definition finished_early :: store where
  "finished_early = snd (saveRound3Data online fine one_session ''7f3a'' (JArr [JStr ''p'']) 5 100 0 100)"

definition back_to_round2 :: store where
  "back_to_round2 = snd (saveRound1Data online fine finished_early ''7f3a'' (JArr []) 10 5000)"

text \<open>Two finished sessions with the same score, and a session still in round 3.\<close>

definition three_sessions :: store where
  "three_sessions =
     \<lparr>table =
        [\<lparr>row_id = ''a'', row_cols = [''total_score'' \<mapsto> JNum 30, ''total_time'' \<mapsto> JNum 100,
            ''status'' \<mapsto> JStr ''Finished'', ''completed'' \<mapsto> JBool True]\<rparr>,
         \<lparr>row_id = ''b'', row_cols = [''total_score'' \<mapsto> JNum 30, ''total_time'' \<mapsto> JNum 50,
            ''status'' \<mapsto> JStr ''Finished'', ''completed'' \<mapsto> JBool True]\<rparr>,
         \<lparr>row_id = ''c'', row_cols = [''total_score'' \<mapsto> JNum 40,
            ''status'' \<mapsto> JStr ''Round 3'', ''completed'' \<mapsto> JBool False]\<rparr>],
      defaults = Map.empty, requests = 0\<rparr>"

text \<open>A join under the empty name.\<close>

definition nameless :: userData where
  "nameless = \<lparr>username = [], avatarUrl = None, apiKey = None\<rparr>"

definition nameless_joined :: server where
  "nameless_joined = fst (on_join offline down ''s9'' nameless (boot empty_store))"

definition another_reply :: env where
  "another_reply = fine\<lparr>fresh_id := ''9c1e''\<rparr>"

text \<open>
  Two sockets join as Alice with the store configured; the second join arrives while the
  first handler awaits \<open>createSession\<close>.
\<close>

definition both_waiting :: server where
  "both_waiting =
     run online [Join fine ''s1'' alice, Join another_reply ''s2'' alice] (boot empty_store)"

definition first_resumed :: server where
  "first_resumed = fst (on_join_resumed 0 both_waiting)"

definition second_resumed :: server where
  "second_resumed = fst (on_join_resumed 0 first_resumed)"

section \<open>The insertion sort\<close>

lemma set_insert_wrt: "set (insert_wrt le x xs) = insert x (set xs)"
  by (induction xs) auto

lemma mset_insert_wrt: "mset (insert_wrt le x xs) = add_mset x (mset xs)"
  by (induction xs) auto

lemma sort_wrt_Cons: "sort_wrt le (x # xs) = insert_wrt le x (sort_wrt le xs)"
  by (simp add: sort_wrt_def)

lemma sort_wrt_Nil: "sort_wrt le [] = []"
  by (simp add: sort_wrt_def)

lemma mset_sort_wrt: "mset (sort_wrt le xs) = mset xs"
  by (induction xs) (simp_all add: sort_wrt_Nil sort_wrt_Cons mset_insert_wrt)

lemma set_sort_wrt: "set (sort_wrt le xs) = set xs"
  using mset_sort_wrt [of le xs] by (metis set_mset_mset)

lemma length_sort_wrt: "length (sort_wrt le xs) = length xs"
  using mset_sort_wrt [of le xs] by (metis size_mset)

lemma sorted_insert_wrt:
  assumes total: "\<And>a b. le a b \<or> le b a"
    and trans: "\<And>a b c. le a b \<Longrightarrow> le b c \<Longrightarrow> le a c"
  shows "sorted_wrt le xs \<Longrightarrow> sorted_wrt le (insert_wrt le x xs)"
proof (induction xs)
  case Nil
  then show ?case by simp
next
  case (Cons y ys)
  show ?case
  proof (cases "le x y")
    case True
    with Cons.prems trans show ?thesis by auto
  next
    case False
    with total have "le y x" by blast
    with Cons False show ?thesis by (auto simp: set_insert_wrt)
  qed
qed

lemma sorted_sort_wrt:
  assumes total: "\<And>a b. le a b \<or> le b a"
    and trans: "\<And>a b c. le a b \<Longrightarrow> le b c \<Longrightarrow> le a c"
  shows "sorted_wrt le (sort_wrt le xs)"
proof (induction xs)
  case Nil
  then show ?case by (simp add: sort_wrt_Nil)
next
  case (Cons x xs)
  with sorted_insert_wrt [of le, OF total trans] show ?case
    by (simp add: sort_wrt_Cons)
qed

text \<open>Stability: elements that the test cannot tell apart keep their order.\<close>

lemma filter_insert_wrt_out: "\<not> P x \<Longrightarrow> filter P (insert_wrt le x xs) = filter P xs"
  by (induction xs) auto

lemma filter_insert_wrt_in:
  "P x \<Longrightarrow> (\<And>y. P y \<Longrightarrow> le x y) \<Longrightarrow> filter P (insert_wrt le x xs) = x # filter P xs"
  by (induction xs) auto

lemma sort_wrt_stable:
  assumes same: "\<And>x y. P x \<Longrightarrow> P y \<Longrightarrow> le x y"
  shows "filter P (sort_wrt le xs) = filter P xs"
proof (induction xs)
  case Nil
  then show ?case by (simp add: sort_wrt_Nil)
next
  case (Cons x xs)
  show ?case
  proof (cases "P x")
    case True
    then have "filter P (insert_wrt le x (sort_wrt le xs)) = x # filter P (sort_wrt le xs)"
      using same by (intro filter_insert_wrt_in) auto
    with True Cons show ?thesis by (simp add: sort_wrt_Cons)
  next
    case False
    with Cons show ?thesis by (simp add: sort_wrt_Cons filter_insert_wrt_out)
  qed
qed

subsection \<open>The store's ordering is a total preorder\<close>

lemma val_le_total: "val_le k x y \<or> val_le k y x"
  by (cases x; cases y) auto

lemma val_le_antisym: "val_le k x y \<Longrightarrow> val_le k y x \<Longrightarrow> x = y"
  by (cases x; cases y) (auto split: if_splits)

lemma val_le_trans: "val_le k x y \<Longrightarrow> val_le k y z \<Longrightarrow> val_le k x z"
  by (cases x; cases y; cases z) (auto split: if_splits)

lemma rows_le_total: "rows_le ks a b \<or> rows_le ks b a"
  by (induction ks) (auto simp: Let_def val_le_total)

lemma rows_le_trans: "rows_le ks a b \<Longrightarrow> rows_le ks b c \<Longrightarrow> rows_le ks a c"
proof (induction ks)
  case Nil
  then show ?case by simp
next
  case (Cons k ks)
  let ?x = "num_of (row_cols a (ord_column k))"
  let ?y = "num_of (row_cols b (ord_column k))"
  let ?z = "num_of (row_cols c (ord_column k))"
  show ?case
  proof (cases "?x = ?y")
    case xy: True
    with Cons show ?thesis by (auto simp: Let_def split: if_splits)
  next
    case xy: False
    show ?thesis
    proof (cases "?y = ?z")
      case True
      with xy Cons.prems show ?thesis by (auto simp: Let_def split: if_splits)
    next
      case False
      with xy Cons.prems have le: "val_le k ?x ?y" "val_le k ?y ?z"
        by (auto simp: Let_def)
      then have "val_le k ?x ?z" by (rule val_le_trans)
      moreover have "?x \<noteq> ?z"
        using le xy val_le_antisym [of k ?x ?y] by auto
      ultimately show ?thesis by (simp add: Let_def)
    qed
  qed
qed

lemma sorted_db_rows: "sorted_wrt (rows_le ks) (sort_wrt (rows_le ks) rows)"
proof (rule sorted_sort_wrt)
  show "rows_le ks a b \<or> rows_le ks b a" for a b
    by (rule rows_le_total)
  show "rows_le ks a b \<Longrightarrow> rows_le ks b c \<Longrightarrow> rows_le ks a c" for a b c
    by (rule rows_le_trans)
qed

lemma leaderboard_keys_spec:
  "nf = None \<or> nf = Some False \<Longrightarrow>
   rows_le [\<lparr>ord_column = ''total_score'', ascending = False, nullsFirst = None\<rparr>,
            \<lparr>ord_column = ''total_time'', ascending = True, nullsFirst = nf\<rparr>] a b
     = by_score_then_time (row_cols a) (row_cols b)"
  apply (cases "num_of (row_cols a ''total_score'')"; cases "num_of (row_cols b ''total_score'')";
     cases "num_of (row_cols a ''total_time'')"; cases "num_of (row_cols b ''total_time'')")
  apply (auto simp: by_score_then_time_def nulls_first_def Let_def)
  done

section \<open>The live leaderboard\<close>

lemma truncate_with_rank: "player.truncate (with_rank (i, p)) = p"
  by (simp add: with_rank_def player.truncate_def)

lemma score_with_rank: "score (with_rank (i, p)) = score p"
  by (simp add: with_rank_def)

lemma rank_with_rank: "rank (with_rank (i, p)) = Suc i"
  by (simp add: with_rank_def)

lemma ranks_enumerate:
  "map rank (map with_rank (enumerate n xs)) = [Suc n..<Suc (n + length xs)]"
  by (induction xs arbitrary: n) (auto simp: rank_with_rank upt_rec)

lemma profiles_enumerate: "map player.truncate (map with_rank (enumerate n xs)) = xs"
  by (induction xs arbitrary: n) (auto simp: truncate_with_rank)

lemma scores_enumerate: "map score (map with_rank (enumerate n xs)) = map score xs"
  by (induction xs arbitrary: n) (auto simp: score_with_rank)

lemma profiles_allPlayers:
  "map player.truncate (allPlayers s)
     = sort_wrt (\<lambda>a b. score b - score a \<le> 0) (map snd (persistentPlayers s))"
  by (simp only: allPlayers_def js_sort_def profiles_enumerate)

lemma sorted_scores_allPlayers: "sorted_wrt (\<lambda>a b. score b \<le> score a) (allPlayers s)"
proof -
  let ?le = "\<lambda>a b :: player. score b - score a \<le> 0"
  let ?ps = "sort_wrt ?le (map snd (persistentPlayers s))"
  have "sorted_wrt ?le ?ps"
    by (rule sorted_sort_wrt) auto
  then have "sorted_wrt (\<lambda>x y. y \<le> x) (map score ?ps)"
    by (simp add: sorted_wrt_map)
  then have "sorted_wrt (\<lambda>x y. y \<le> x) (map score (allPlayers s))"
    by (simp only: allPlayers_def js_sort_def scores_enumerate)
  then show ?thesis
    by (simp add: sorted_wrt_map)
qed

text \<open>
  C1 (as the code has it). Whatever the scoreboard holds, the list that
  \<open>broadcastLeaderboard\<close> emits to every socket is sorted by score descending, the rank of
  each entry is its 1-based position, the entries are the profiles of the scoreboard, and
  profiles with the same score appear in the order in which their names were first set in
  \<open>persistentPlayers\<close>; no elapsed time takes part.
\<close>

theorem C1_leaderboard_by_score_in_join_order:
  "broadcastLeaderboard s = [ToAll (leaderboard_update (allPlayers s))]
   \<and> sorted_wrt (\<lambda>a b. score b \<le> score a) (allPlayers s)
   \<and> map rank (allPlayers s) = [1..<Suc (length (persistentPlayers s))]
   \<and> mset (map player.truncate (allPlayers s)) = mset (map snd (persistentPlayers s))
   \<and> filter (\<lambda>p. score p = k) (map player.truncate (allPlayers s))
       = filter (\<lambda>p. score p = k) (map snd (persistentPlayers s))"
proof -
  have ranks: "map rank (allPlayers s) = [1..<Suc (length (persistentPlayers s))]"
    unfolding allPlayers_def js_sort_def ranks_enumerate length_sort_wrt by simp
  have stable: "filter (\<lambda>p. score p = k) (map player.truncate (allPlayers s))
       = filter (\<lambda>p. score p = k) (map snd (persistentPlayers s))"
    unfolding profiles_allPlayers by (rule sort_wrt_stable) simp
  show ?thesis
    using ranks stable sorted_scores_allPlayers [of s]
    by (simp add: broadcastLeaderboard_def profiles_allPlayers mset_sort_wrt)
qed

lemma two_joined_players:
  "persistentPlayers two_joined =
     [(''alice'', \<lparr>username = ''alice'', avatarUrl = None, score = 0,
                   status = ''Just Joined'', isBot = False\<rparr>),
      (''bob'', \<lparr>username = ''bob'', avatarUrl = None, score = 0,
                 status = ''Just Joined'', isBot = False\<rparr>)]"
  by (simp add: two_joined_def on_join_def boot_def createSession_v1_def
      isSupabaseConfigured_def offline_def alice_def bob_def Let_def)

lemma two_joined_leaderboard:
  "allPlayers two_joined =
     [\<lparr>username = ''alice'', avatarUrl = None, score = 0,
       status = ''Just Joined'', isBot = False, rank = 1\<rparr>,
      \<lparr>username = ''bob'', avatarUrl = None, score = 0,
       status = ''Just Joined'', isBot = False, rank = 2\<rparr>]"
  by (simp add: allPlayers_def two_joined_players js_sort_def sort_wrt_def with_rank_def
      enumerate_eq_zip)

theorem C1_leaderboard_by_score_in_join_order_witness:
  "sorted_wrt (\<lambda>a b. score b \<le> score a) (allPlayers two_joined)
   \<and> map rank (allPlayers two_joined) = [1, 2]
   \<and> map username (allPlayers two_joined) = [''alice'', ''bob'']"
  using C1_leaderboard_by_score_in_join_order [of two_joined 0]
  by (simp add: two_joined_players two_joined_leaderboard)

text \<open>
  C1 (as stated) fails. Alice and Bob have joined in this order and both have score 0.
  With Alice the slower of the two, the tie-break by ascending elapsed time puts Bob
  first; the broadcast has Alice first.
\<close>

theorem C1_tie_break_counterexample:
  "\<not> sorted_wrt (score_then_time slow_alice) (allPlayers two_joined)"
  by (simp add: two_joined_leaderboard score_then_time_def slow_alice_def)

section \<open>The store\<close>

lemma find_apply_patch:
  "find (\<lambda>r. row_id r = sessionId) (map (apply_patch sessionId patch) tbl)
     = map_option (\<lambda>r. r\<lparr>row_cols := row_cols r ++ patch\<rparr>) (find (\<lambda>r. row_id r = sessionId) tbl)"
  by (induction tbl) (auto simp: apply_patch_def)

lemma find_apply_patch_other:
  "other \<noteq> sessionId \<Longrightarrow>
   find (\<lambda>r. row_id r = other) (map (apply_patch sessionId patch) tbl)
     = find (\<lambda>r. row_id r = other) tbl"
  by (induction tbl) (auto simp: apply_patch_def)

lemma cell_db_update:
  "answered e \<Longrightarrow> row_of st sessionId = Some r \<Longrightarrow>
   cell (snd (db_update e sessionId patch st)) sessionId c = (row_cols r ++ patch) c"
  by (simp add: cell_def row_of_def db_update_def contacted_def find_apply_patch Let_def)

lemma row_of_db_update_other:
  "other \<noteq> sessionId \<Longrightarrow> row_of (snd (db_update e sessionId patch st)) other = row_of st other"
  by (simp add: row_of_def db_update_def contacted_def find_apply_patch_other Let_def)

lemma online_configured: "isSupabaseConfigured online"
  by (simp add: online_def isSupabaseConfigured_def truthy_def)

lemma answered_fine: "answered fine"
  by (simp add: fine_def)

lemma not_local_7f3a: "\<not> startsWith ''7f3a'' ''local-''"
  by (simp add: startsWith_def)

lemma one_session_table:
  "table one_session =
     [\<lparr>row_id = ''7f3a'',
       row_cols = [''player_name'' \<mapsto> JStr ''alice'',
            ''avatar_url'' \<mapsto> JStr (default_avatar ''alice''),
            ''total_score'' \<mapsto> JNum 0,
            ''rounds_completed'' \<mapsto> JNum 0,
            ''current_round'' \<mapsto> JNum 1,
            ''status'' \<mapsto> JStr ''Playing'',
            ''round1_data'' \<mapsto> JArr [],
            ''round2_data'' \<mapsto> JArr [],
            ''round3_data'' \<mapsto> JArr []]\<rparr>]"
  by (simp add: one_session_def createSession_def online_configured db_insert_def answered_fine
      contacted_def empty_store_def Let_def)
    (simp add: fine_def)

lemma row_of_one_session: "row_of one_session ''7f3a'' = Some (hd (table one_session))"
  by (simp add: row_of_def one_session_table)

lemma saved_iff_answered:
  "(case db_update e sessionId patch st of (res, st') \<Rightarrow> (res \<noteq> None, st'))
     = (answered e, snd (db_update e sessionId patch st))"
  by (simp add: db_update_def Let_def)

lemma saveRound1Data_store:
  assumes "isSupabaseConfigured cfg" "\<not> startsWith sessionId ''local-''"
  shows "saveRound1Data cfg e st sessionId d sc t =
     (answered e,
      snd (db_update e sessionId
           [''round1_data'' \<mapsto> d,
            ''round1_score'' \<mapsto> JNum sc,
            ''round1_time'' \<mapsto> JNum t,
            ''total_score'' \<mapsto> JNum sc,
            ''rounds_completed'' \<mapsto> JNum 1,
            ''current_round'' \<mapsto> JNum 2,
            ''status'' \<mapsto> JStr ''Round 2''] st))"
  using assms by (simp only: saveRound1Data_def saved_iff_answered) simp

lemma saveRound2Data_store:
  assumes "isSupabaseConfigured cfg" "\<not> startsWith sessionId ''local-''"
  shows "saveRound2Data cfg e st sessionId d sc t prev =
     (answered e,
      snd (db_update e sessionId
           [''round2_data'' \<mapsto> d,
            ''round2_score'' \<mapsto> JNum sc,
            ''round2_time'' \<mapsto> JNum t,
            ''total_score'' \<mapsto> JNum (prev + sc),
            ''rounds_completed'' \<mapsto> JNum 2,
            ''current_round'' \<mapsto> JNum 3,
            ''status'' \<mapsto> JStr ''Round 3''] st))"
  using assms by (simp only: saveRound2Data_def saved_iff_answered Let_def) simp

lemma saveRound3Data_store:
  assumes "isSupabaseConfigured cfg" "\<not> startsWith sessionId ''local-''"
  shows "saveRound3Data cfg e st sessionId d sc t prev tot =
     (answered e,
      snd (db_update e sessionId
           [''round3_data'' \<mapsto> d,
            ''round3_score'' \<mapsto> JNum sc,
            ''round3_time'' \<mapsto> JNum t,
            ''total_score'' \<mapsto> JNum (prev + sc),
            ''total_time'' \<mapsto> JNum tot,
            ''rounds_completed'' \<mapsto> JNum 3,
            ''current_round'' \<mapsto> JNum 3,
            ''status'' \<mapsto> JStr ''Finished''] st))"
  using assms by (simp only: saveRound3Data_def saved_iff_answered Let_def) simp

lemma saveRound1Data_True:
  assumes "saveRound1Data cfg e st sessionId d sc t = (True, st')"
  shows "isSupabaseConfigured cfg \<and> \<not> startsWith sessionId ''local-'' \<and> answered e"
proof (cases "isSupabaseConfigured cfg \<and> \<not> startsWith sessionId ''local-''")
  case True
  with assms saveRound1Data_store [of cfg sessionId e st d sc t] show ?thesis by simp
next
  case False
  with assms show ?thesis by (auto simp: saveRound1Data_def)
qed

lemma saveRound2Data_True:
  assumes "saveRound2Data cfg e st sessionId d sc t prev = (True, st')"
  shows "isSupabaseConfigured cfg \<and> \<not> startsWith sessionId ''local-'' \<and> answered e"
proof (cases "isSupabaseConfigured cfg \<and> \<not> startsWith sessionId ''local-''")
  case True
  with assms saveRound2Data_store [of cfg sessionId e st d sc t prev] show ?thesis by simp
next
  case False
  with assms show ?thesis by (auto simp: saveRound2Data_def)
qed

lemma row_of_db_update:
  "answered e \<Longrightarrow> row_of st sessionId = Some r \<Longrightarrow>
   row_of (snd (db_update e sessionId patch st)) sessionId = Some (r\<lparr>row_cols := row_cols r ++ patch\<rparr>)"
  by (simp add: row_of_def db_update_def contacted_def find_apply_patch Let_def)

section \<open>The session service\<close>

text \<open>
  C4. On a session the store holds, a round-1 save that returns \<open>true\<close> leaves the status
  \<open>Round 2\<close>, \<open>rounds_completed\<close> 1 and \<open>total_score\<close> the round-1 score; a round-2 save
  on the resulting store that returns \<open>true\<close> leaves \<open>total_score\<close> the sum of
  \<open>previousTotalScore\<close> and the round score, and the status \<open>Round 3\<close>.
\<close>

theorem C4_round_saves_set_totals:
  assumes r1: "saveRound1Data cfg e1 st sessionId data1 score1 time1 = (True, st1)"
    and r2: "saveRound2Data cfg e2 st1 sessionId data2 roundScore roundTime previousTotalScore
               = (True, st2)"
    and known: "row_of st sessionId = Some r"
  shows "cell st1 sessionId ''status'' = Some (JStr ''Round 2'')
       \<and> cell st1 sessionId ''rounds_completed'' = Some (JNum 1)
       \<and> cell st1 sessionId ''total_score'' = Some (JNum score1)
       \<and> cell st2 sessionId ''total_score'' = Some (JNum (previousTotalScore + roundScore))
       \<and> cell st2 sessionId ''status'' = Some (JStr ''Round 3'')"
proof -
  from saveRound1Data_True [OF r1]
  have c: "isSupabaseConfigured cfg" and l: "\<not> startsWith sessionId ''local-''" and a1: "answered e1"
    by simp_all
  from saveRound2Data_True [OF r2] have a2: "answered e2"
    by simp
  let ?p1 = "[''round1_data'' \<mapsto> data1,
            ''round1_score'' \<mapsto> JNum score1,
            ''round1_time'' \<mapsto> JNum time1,
            ''total_score'' \<mapsto> JNum score1,
            ''rounds_completed'' \<mapsto> JNum 1,
            ''current_round'' \<mapsto> JNum 2,
            ''status'' \<mapsto> JStr ''Round 2'']"
  have st1: "st1 = snd (db_update e1 sessionId ?p1 st)"
    using r1 saveRound1Data_store [OF c l, of e1 st data1 score1 time1] by simp
  have known1: "row_of st1 sessionId = Some (r\<lparr>row_cols := row_cols r ++ ?p1\<rparr>)"
    unfolding st1 by (rule row_of_db_update [OF a1 known])
  have st2: "st2 = snd (db_update e2 sessionId
           [''round2_data'' \<mapsto> data2,
            ''round2_score'' \<mapsto> JNum roundScore,
            ''round2_time'' \<mapsto> JNum roundTime,
            ''total_score'' \<mapsto> JNum (previousTotalScore + roundScore),
            ''rounds_completed'' \<mapsto> JNum 2,
            ''current_round'' \<mapsto> JNum 3,
            ''status'' \<mapsto> JStr ''Round 3''] st1)"
    using r2 saveRound2Data_store [OF c l, of e2 st1 data2 roundScore roundTime previousTotalScore]
    by simp
  have "cell st1 sessionId ''status'' = Some (JStr ''Round 2'')"
    unfolding st1 by (simp add: cell_db_update [OF a1 known])
  moreover have "cell st1 sessionId ''rounds_completed'' = Some (JNum 1)"
    unfolding st1 by (simp add: cell_db_update [OF a1 known])
  moreover have "cell st1 sessionId ''total_score'' = Some (JNum score1)"
    unfolding st1 by (simp add: cell_db_update [OF a1 known])
  moreover have "cell st2 sessionId ''total_score'' = Some (JNum (previousTotalScore + roundScore))"
    unfolding st2 by (simp add: cell_db_update [OF a2 known1])
  moreover have "cell st2 sessionId ''status'' = Some (JStr ''Round 3'')"
    unfolding st2 by (simp add: cell_db_update [OF a2 known1])
  ultimately show ?thesis by simp
qed

theorem C4_round_saves_set_totals_witness:
  "saveRound1Data online fine one_session ''7f3a'' (JArr []) 10 5000 = (True, after_round1)
   \<and> saveRound2Data online fine after_round1 ''7f3a'' (JArr []) 15 3000 10 = (True, after_round2)
   \<and> cell after_round1 ''7f3a'' ''status'' = Some (JStr ''Round 2'')
   \<and> cell after_round1 ''7f3a'' ''rounds_completed'' = Some (JNum 1)
   \<and> cell after_round1 ''7f3a'' ''total_score'' = Some (JNum 10)
   \<and> cell after_round2 ''7f3a'' ''total_score'' = Some (JNum 25)
   \<and> cell after_round2 ''7f3a'' ''status'' = Some (JStr ''Round 3'')"
proof -
  have s1: "saveRound1Data online fine one_session ''7f3a'' (JArr []) 10 5000 = (True, after_round1)"
    by (simp add: after_round1_def saveRound1Data_store [OF online_configured not_local_7f3a]
        answered_fine)
  have s2: "saveRound2Data online fine after_round1 ''7f3a'' (JArr []) 15 3000 10
              = (True, after_round2)"
    by (simp add: after_round2_def saveRound2Data_store [OF online_configured not_local_7f3a]
        answered_fine)
  from C4_round_saves_set_totals [OF s1 s2 row_of_one_session] s1 s2
  show ?thesis by simp
qed

text \<open>
  C7. When the store is not configured, or the insert is not answered, \<open>createSession\<close>
  of either service returns (it has no failing path) the placeholder object: an id made of
  \<open>local-\<close> and the clock, and the player name.
\<close>

theorem C7_createSession_placeholder:
  assumes "\<not> isSupabaseConfigured cfg \<or> \<not> answered e"
  shows "fst (createSession cfg e st playerName avatar)
           = \<lparr>row_id = ''local-'' @ string_of_nat (now e),
              row_cols = [''player_name'' \<mapsto> JStr playerName]\<rparr>
         \<and> fst (createSession_v1 cfg e st playerName key)
           = \<lparr>row_id = ''local-'' @ string_of_nat (now e),
              row_cols = [''playerName'' \<mapsto> JStr playerName]\<rparr>
         \<and> startsWith (row_id (fst (createSession cfg e st playerName avatar))) ''local-''
         \<and> startsWith (row_id (fst (createSession_v1 cfg e st playerName key))) ''local-''"
  using assms
  by (auto simp: createSession_def createSession_v1_def local_session_def db_insert_def
      startsWith_def)

lemma clock_digits: "string_of_nat 1700000000000 = ''1700000000000''"
  by (simp add: string_of_nat.simps)

theorem C7_createSession_placeholder_witness:
  "row_id (fst (createSession offline fine empty_store ''alice'' None)) = ''local-1700000000000''
   \<and> row_cols (fst (createSession online down empty_store ''alice'' None)) ''player_name'' = Some (JStr ''alice'')
   \<and> row_cols (fst (createSession_v1 online down empty_store ''alice'' None)) ''playerName'' = Some (JStr ''alice'')
   \<and> startsWith (row_id (fst (createSession_v1 offline fine empty_store ''alice'' None))) ''local-''"
proof -
  have off: "\<not> isSupabaseConfigured offline \<or> \<not> answered fine"
    by (simp add: offline_def isSupabaseConfigured_def)
  have dn: "\<not> isSupabaseConfigured online \<or> \<not> answered down"
    by (simp add: down_def)
  have clock: "now fine = 1700000000000"
    by (simp add: fine_def)
  from C7_createSession_placeholder [OF off, of empty_store "''alice''" None None]
    C7_createSession_placeholder [OF dn, of empty_store "''alice''" None None]
  show ?thesis by (simp add: clock startsWith_def clock_digits)
qed

text \<open>
  C10. For a session id that starts with \<open>local-\<close>, every operation of either service
  that takes a session id returns its sentinel (\<open>null\<close> or \<open>false\<close>) and leaves the store
  as it was, the request count included: the store is not contacted. In particular
  \<open>getSession\<close> reports a placeholder session as absent.
\<close>

theorem C10_local_ids_short_circuit:
  assumes "startsWith sessionId ''local-''"
  shows "updateSession cfg e st sessionId updates = (None, st)
       \<and> saveRound1Data cfg e st sessionId d1 score1 time1 = (False, st)
       \<and> saveRound2Data cfg e st sessionId d2 score2 time2 prev2 = (False, st)
       \<and> saveRound3Data cfg e st sessionId d3 score3 time3 prev3 total3 = (False, st)
       \<and> getSession cfg e st sessionId = (None, st)
       \<and> updateRoundData cfg e st sessionId roundNumber roundData = (None, st)
       \<and> completeSession cfg e st sessionId finalData = (None, st)
       \<and> getSession_v1 cfg e st sessionId = (None, st)"
  using assms
  by (simp add: updateSession_def saveRound1Data_def saveRound2Data_def saveRound3Data_def
      getSession_def updateRoundData_def completeSession_def getSession_v1_def)

theorem C10_local_ids_short_circuit_witness:
  "startsWith ''local-1700000000000'' ''local-''
   \<and> getSession online fine one_session ''local-1700000000000'' = (None, one_session)
   \<and> saveRound1Data online fine one_session ''local-1700000000000'' (JArr []) 10 5000
       = (False, one_session)
   \<and> completeSession online fine one_session ''local-1700000000000'' Map.empty
       = (None, one_session)"
proof -
  have h: "startsWith ''local-1700000000000'' ''local-''"
    by (simp add: startsWith_def)
  from C10_local_ids_short_circuit [OF h, of online fine one_session] h
  show ?thesis by simp
qed

text \<open>
  C3 (as the code has it). On a session the store holds, each round save that reaches the
  store is accepted whatever the status and the completed rounds of the session are: it
  returns \<open>true\<close>, writes its round's data and sets the status to the value fixed for
  that round (\<open>Round 2\<close>, \<open>Round 3\<close>, \<open>Finished\<close>). No save is rejected or reordered on
  account of earlier rounds.
\<close>

theorem C3_round_saves_overwrite:
  assumes c: "isSupabaseConfigured cfg" and l: "\<not> startsWith sessionId ''local-''"
    and a: "answered e" and known: "row_of st sessionId = Some r"
  shows "fst (saveRound1Data cfg e st sessionId d sc t)
       \<and> cell (snd (saveRound1Data cfg e st sessionId d sc t)) sessionId ''status''
           = Some (JStr ''Round 2'')
       \<and> cell (snd (saveRound1Data cfg e st sessionId d sc t)) sessionId ''round1_data'' = Some d
       \<and> fst (saveRound2Data cfg e st sessionId d sc t prev)
       \<and> cell (snd (saveRound2Data cfg e st sessionId d sc t prev)) sessionId ''status''
           = Some (JStr ''Round 3'')
       \<and> cell (snd (saveRound2Data cfg e st sessionId d sc t prev)) sessionId ''round2_data'' = Some d
       \<and> fst (saveRound3Data cfg e st sessionId d sc t prev tot)
       \<and> cell (snd (saveRound3Data cfg e st sessionId d sc t prev tot)) sessionId ''status''
           = Some (JStr ''Finished'')
       \<and> cell (snd (saveRound3Data cfg e st sessionId d sc t prev tot)) sessionId ''round3_data''
           = Some d"
  by (simp add: saveRound1Data_store [OF c l] saveRound2Data_store [OF c l]
      saveRound3Data_store [OF c l] a cell_db_update [OF a known])

lemma cell_one_session_status: "cell one_session ''7f3a'' ''status'' = Some (JStr ''Playing'')"
  by (simp add: cell_def row_of_one_session one_session_table)

lemma finished_early_status: "cell finished_early ''7f3a'' ''status'' = Some (JStr ''Finished'')"
  unfolding finished_early_def
  by (simp add: saveRound3Data_store [OF online_configured not_local_7f3a]
      cell_db_update [OF answered_fine row_of_one_session])

theorem C3_round_saves_overwrite_witness:
  "isSupabaseConfigured online \<and> \<not> startsWith ''7f3a'' ''local-'' \<and> answered fine
   \<and> row_of one_session ''7f3a'' = Some (hd (table one_session))
   \<and> cell one_session ''7f3a'' ''status'' = Some (JStr ''Playing'')
   \<and> fst (saveRound3Data online fine one_session ''7f3a'' (JArr [JStr ''p'']) 5 100 0 100)
   \<and> cell finished_early ''7f3a'' ''status'' = Some (JStr ''Finished'')
   \<and> cell finished_early ''7f3a'' ''round3_data'' = Some (JArr [JStr ''p''])"
  using C3_round_saves_overwrite [OF online_configured not_local_7f3a answered_fine
      row_of_one_session, of "JArr [JStr ''p'']" 5 100 0 100]
  by (simp add: online_configured not_local_7f3a answered_fine row_of_one_session
      cell_one_session_status finished_early_def)

lemma row_of_finished_early: "\<exists>r. row_of finished_early ''7f3a'' = Some r"
  unfolding finished_early_def
  by (simp add: saveRound3Data_store [OF online_configured not_local_7f3a]
      row_of_db_update [OF answered_fine row_of_one_session])

text \<open>
  C3 (as stated) fails. A session that is still \<open>Playing\<close>, with no round saved, accepts a
  round-3 save and becomes \<open>Finished\<close>; a round-1 save on the finished session is
  accepted too and takes the status back to \<open>Round 2\<close>.
\<close>

theorem C3_forward_only_counterexample:
  "stage (cell one_session ''7f3a'' ''status'') = 1
   \<and> cell one_session ''7f3a'' ''round1_data'' = Some (JArr [])
   \<and> saveRound3Data online fine one_session ''7f3a'' (JArr [JStr ''p'']) 5 100 0 100
       = (True, finished_early)
   \<and> cell finished_early ''7f3a'' ''round3_data'' = Some (JArr [JStr ''p''])
   \<and> stage (cell finished_early ''7f3a'' ''status'') = 4
   \<and> saveRound1Data online fine finished_early ''7f3a'' (JArr []) 10 5000
       = (True, back_to_round2)
   \<and> stage (cell back_to_round2 ''7f3a'' ''status'') = 2
   \<and> \<not> stage (cell finished_early ''7f3a'' ''status'')
         \<le> stage (cell back_to_round2 ''7f3a'' ''status'')"
proof -
  obtain r where r: "row_of finished_early ''7f3a'' = Some r"
    using row_of_finished_early by blast
  have s3: "saveRound3Data online fine one_session ''7f3a'' (JArr [JStr ''p'']) 5 100 0 100
       = (True, finished_early)"
    by (simp add: finished_early_def saveRound3Data_store [OF online_configured not_local_7f3a]
        answered_fine)
  have s1: "saveRound1Data online fine finished_early ''7f3a'' (JArr []) 10 5000
       = (True, back_to_round2)"
    by (simp add: back_to_round2_def saveRound1Data_store [OF online_configured not_local_7f3a]
        answered_fine)
  have c3: "cell finished_early ''7f3a'' ''round3_data'' = Some (JArr [JStr ''p''])"
    unfolding finished_early_def
    by (simp add: saveRound3Data_store [OF online_configured not_local_7f3a]
      cell_db_update [OF answered_fine row_of_one_session])
  have regress: "cell back_to_round2 ''7f3a'' ''status'' = Some (JStr ''Round 2'')"
    unfolding back_to_round2_def
    by (simp add: saveRound1Data_store [OF online_configured not_local_7f3a]
      cell_db_update [OF answered_fine r])
  have d1: "cell one_session ''7f3a'' ''round1_data'' = Some (JArr [])"
    by (simp add: cell_def row_of_one_session one_session_table)
  show ?thesis
    by (simp add: s3 s1 c3 regress d1 cell_one_session_status finished_early_status stage_def)
qed

section \<open>The persisted leaderboard\<close>

lemma getLeaderboard_rows:
  "fst (getLeaderboard cfg e st limit) =
     (if isSupabaseConfigured cfg \<and> answered e then
        take limit
          (sort_wrt
             (rows_le [\<lparr>ord_column = ''total_score'', ascending = False, nullsFirst = None\<rparr>,
                       \<lparr>ord_column = ''total_time'', ascending = True, nullsFirst = Some False\<rparr>])
             (table st))
      else [])"
  by (simp add: getLeaderboard_def db_select_def Let_def)

lemma getLeaderboard_v1_rows:
  "fst (getLeaderboard_v1 cfg e st limit) =
     (if isSupabaseConfigured cfg \<and> answered e then
        map leaderboard_columns
          (take limit
            (sort_wrt
               (rows_le [\<lparr>ord_column = ''total_score'', ascending = False, nullsFirst = None\<rparr>,
                         \<lparr>ord_column = ''total_time'', ascending = True, nullsFirst = None\<rparr>])
               (filter (\<lambda>r. row_cols r ''completed'' = Some (JBool True)) (table st))))
      else [])"
  by (simp add: getLeaderboard_v1_def db_select_def Let_def)

lemma selected_columns:
  "leaderboard_columns r ''total_score'' = row_cols r ''total_score''"
  "leaderboard_columns r ''total_time'' = row_cols r ''total_time''"
  by (simp_all add: leaderboard_columns_def)

lemma by_score_then_time_selected:
  "by_score_then_time (leaderboard_columns a) (leaderboard_columns b)
     = by_score_then_time (row_cols a) (row_cols b)"
  by (simp only: by_score_then_time_def selected_columns)

lemma sorted_leaderboard_rows:
  assumes "nf = None \<or> nf = Some False"
  shows "sorted_wrt by_score_then_time
     (map row_cols (take limit
        (sort_wrt (rows_le [\<lparr>ord_column = ''total_score'', ascending = False, nullsFirst = None\<rparr>,
                       \<lparr>ord_column = ''total_time'', ascending = True, nullsFirst = nf\<rparr>]) rows)))"
proof -
  let ?ks = "[\<lparr>ord_column = ''total_score'', ascending = False, nullsFirst = None\<rparr>,
              \<lparr>ord_column = ''total_time'', ascending = True, nullsFirst = nf\<rparr>]"
  have "sorted_wrt (rows_le ?ks) (take limit (sort_wrt (rows_le ?ks) rows))"
    by (rule sorted_wrt_take) (rule sorted_db_rows)
  moreover have "rows_le ?ks = (\<lambda>a b. by_score_then_time (row_cols a) (row_cols b))"
    using leaderboard_keys_spec [OF assms] by (intro ext) simp
  ultimately show ?thesis
    by (simp add: sorted_wrt_map)
qed

text \<open>
  C5 (as the code has it). For every limit, both leaderboard queries return at most
  \<open>limit\<close> entries, ordered by total score descending with ties broken by total time
  ascending. The query of the service with round saves (part_000) has no status filter:
  its entries are rows of the table whatever their status, all of them when the limit
  allows. The query of the socket server's service (part_001) returns only rows whose
  \<open>completed\<close> column is true.
\<close>

theorem C5_leaderboard_sorted_and_limited:
  "length (fst (getLeaderboard cfg e st limit)) \<le> limit
   \<and> sorted_wrt by_score_then_time (map row_cols (fst (getLeaderboard cfg e st limit)))
   \<and> set (fst (getLeaderboard cfg e st limit)) \<subseteq> set (table st)
   \<and> (isSupabaseConfigured cfg \<and> answered e \<and> length (table st) \<le> limit \<longrightarrow>
        mset (fst (getLeaderboard cfg e st limit)) = mset (table st))
   \<and> length (fst (getLeaderboard_v1 cfg e st limit)) \<le> limit
   \<and> sorted_wrt by_score_then_time (fst (getLeaderboard_v1 cfg e st limit))
   \<and> set (fst (getLeaderboard_v1 cfg e st limit))
        \<subseteq> leaderboard_columns `
            {r \<in> set (table st). row_cols r ''completed'' = Some (JBool True)}"
proof -
  have sub: "set (take limit (sort_wrt le rows)) \<subseteq> set rows" for le and rows :: "session_row list"
    using set_take_subset [of limit "sort_wrt le rows"] by (simp add: set_sort_wrt)
  have s0: "sorted_wrt by_score_then_time (map row_cols (fst (getLeaderboard cfg e st limit)))"
    unfolding getLeaderboard_rows using sorted_leaderboard_rows [of "Some False"] by simp
  have s1: "sorted_wrt by_score_then_time (fst (getLeaderboard_v1 cfg e st limit))"
  proof (cases "isSupabaseConfigured cfg \<and> answered e")
    case True
    have "sorted_wrt by_score_then_time (map row_cols (take limit
        (sort_wrt (rows_le [\<lparr>ord_column = ''total_score'', ascending = False, nullsFirst = None\<rparr>,
                       \<lparr>ord_column = ''total_time'', ascending = True, nullsFirst = None\<rparr>])
           (filter (\<lambda>r. row_cols r ''completed'' = Some (JBool True)) (table st)))))"
      by (rule sorted_leaderboard_rows) simp
    then show ?thesis
      unfolding getLeaderboard_v1_rows using True
      by (simp add: sorted_wrt_map by_score_then_time_selected)
  next
    case False
    then show ?thesis unfolding getLeaderboard_v1_rows by auto
  qed
  have all: "isSupabaseConfigured cfg \<and> answered e \<and> length (table st) \<le> limit \<longrightarrow>
        mset (fst (getLeaderboard cfg e st limit)) = mset (table st)"
    unfolding getLeaderboard_rows by (simp add: length_sort_wrt mset_sort_wrt)
  have m0: "set (fst (getLeaderboard cfg e st limit)) \<subseteq> set (table st)"
  proof (cases "isSupabaseConfigured cfg \<and> answered e")
    case True
    then show ?thesis unfolding getLeaderboard_rows using sub by simp
  next
    case False
    then show ?thesis unfolding getLeaderboard_rows by auto
  qed
  have m1: "set (fst (getLeaderboard_v1 cfg e st limit))
        \<subseteq> leaderboard_columns `
            {r \<in> set (table st). row_cols r ''completed'' = Some (JBool True)}"
  proof (cases "isSupabaseConfigured cfg \<and> answered e")
    case True
    then show ?thesis
      unfolding getLeaderboard_v1_rows
      using sub [of _ "filter (\<lambda>r. row_cols r ''completed'' = Some (JBool True)) (table st)"]
      by auto
  next
    case False
    then show ?thesis unfolding getLeaderboard_v1_rows by auto
  qed
  have l0: "length (fst (getLeaderboard cfg e st limit)) \<le> limit"
    unfolding getLeaderboard_rows by simp
  have l1: "length (fst (getLeaderboard_v1 cfg e st limit)) \<le> limit"
    unfolding getLeaderboard_v1_rows by simp
  from l0 s0 m0 all l1 s1 m1 show ?thesis by blast
qed

lemma three_sessions_leaderboard:
  "map row_id (fst (getLeaderboard online fine three_sessions 10)) = [''c'', ''b'', ''a'']"
  by (simp add: getLeaderboard_rows online_configured answered_fine three_sessions_def
      sort_wrt_def nulls_first_def)

lemma three_sessions_leaderboard_v1:
  "map (\<lambda>c. c ''total_time'') (fst (getLeaderboard_v1 online fine three_sessions 10))
     = [Some (JNum 50), Some (JNum 100)]"
  by (simp add: getLeaderboard_v1_rows online_configured answered_fine three_sessions_def
      sort_wrt_def nulls_first_def leaderboard_columns_def)

theorem C5_leaderboard_sorted_and_limited_witness:
  "isSupabaseConfigured online \<and> answered fine \<and> length (table three_sessions) \<le> 10
   \<and> mset (fst (getLeaderboard online fine three_sessions 10)) = mset (table three_sessions)
   \<and> map row_id (fst (getLeaderboard online fine three_sessions 10)) = [''c'', ''b'', ''a'']
   \<and> sorted_wrt by_score_then_time (fst (getLeaderboard_v1 online fine three_sessions 10))
   \<and> map (\<lambda>c. c ''total_time'') (fst (getLeaderboard_v1 online fine three_sessions 10))
     = [Some (JNum 50), Some (JNum 100)]"
proof -
  have len: "length (table three_sessions) \<le> 10"
    by (simp add: three_sessions_def)
  from C5_leaderboard_sorted_and_limited [of online fine three_sessions 10]
  show ?thesis
    by (simp add: online_configured answered_fine len three_sessions_leaderboard
        three_sessions_leaderboard_v1)
qed

lemma after_round1_rows:
  "row_of after_round1 ''7f3a'' = Some (hd (table one_session)
     \<lparr>row_cols := row_cols (hd (table one_session)) ++
           [''round1_data'' \<mapsto> JArr [],
            ''round1_score'' \<mapsto> JNum 10,
            ''round1_time'' \<mapsto> JNum 5000,
            ''total_score'' \<mapsto> JNum 10,
            ''rounds_completed'' \<mapsto> JNum 1,
            ''current_round'' \<mapsto> JNum 2,
            ''status'' \<mapsto> JStr ''Round 2'']\<rparr>)"
  unfolding after_round1_def
  by (simp add: saveRound1Data_store [OF online_configured not_local_7f3a]
      row_of_db_update [OF answered_fine row_of_one_session])

lemma after_round2_status: "cell after_round2 ''7f3a'' ''status'' = Some (JStr ''Round 3'')"
  unfolding after_round2_def
  by (simp add: saveRound2Data_store [OF online_configured not_local_7f3a]
      cell_db_update [OF answered_fine after_round1_rows])

lemma table_db_update:
  "answered e \<Longrightarrow> map row_id (table (snd (db_update e sessionId patch st))) = map row_id (table st)"
  by (simp add: db_update_def contacted_def Let_def apply_patch_def comp_def)

lemma after_round2_ids: "map row_id (table after_round2) = [''7f3a'']"
  unfolding after_round2_def after_round1_def
  by (simp add: saveRound1Data_store [OF online_configured not_local_7f3a]
      saveRound2Data_store [OF online_configured not_local_7f3a]
      table_db_update [OF answered_fine] one_session_table)

lemma sort_wrt_single: "length xs = 1 \<Longrightarrow> sort_wrt le xs = xs"
  by (cases xs) (simp_all add: sort_wrt_def)

text \<open>
  C5 (as stated) fails for the service with round saves. A session has saved rounds 1
  and 2 and is in round 3: the leaderboard query returns it.
\<close>

theorem C5_unfinished_session_listed_counterexample:
  "map row_id (fst (getLeaderboard online fine after_round2 10)) = [''7f3a'']
   \<and> cell after_round2 ''7f3a'' ''status'' = Some (JStr ''Round 3'')
   \<and> cell after_round2 ''7f3a'' ''status'' \<noteq> Some (JStr ''Finished'')"
proof -
  have one: "length (table after_round2) = 1"
    using after_round2_ids by (metis length_map length_Cons list.size(3) One_nat_def)
  then have "fst (getLeaderboard online fine after_round2 10) = table after_round2"
    by (simp add: getLeaderboard_rows online_configured answered_fine sort_wrt_single)
  then show ?thesis
    by (simp add: after_round2_ids after_round2_status)
qed

section \<open>The socket handlers\<close>

text \<open>What the join handler stores for a name: the profile found, or a new one.\<close>

lemma on_join_players:
  "persistentPlayers (fst (on_join cfg e c u s)) =
     AList.update (username u)
       (let player0 = (case map_of (persistentPlayers s) (username u) of
                       Some p \<Rightarrow> p
                     | None \<Rightarrow> \<lparr>username = username u, avatarUrl = avatarUrl u, score = 0,
                                status = ''Just Joined'', isBot = False\<rparr>)
        in if truthy_opt (avatarUrl u) then player0\<lparr>avatarUrl := avatarUrl u\<rparr> else player0)
       (persistentPlayers s)"
  by (simp add: on_join_def Let_def split: option.splits prod.splits)

lemma on_join_sockets:
  "socketPlayers (fst (on_join cfg e c u s)) = (socketPlayers s)(c \<mapsto> username u)"
  by (simp add: on_join_def Let_def split: option.splits prod.splits)

lemma on_join_sessions: "playerSessions (fst (on_join cfg e c u s)) = playerSessions s"
  by (simp add: on_join_def Let_def split: option.splits prod.splits)

lemma on_join_known_session:
  assumes "playerSessions s (username u) = Some sessionId"
  shows "snd (on_join cfg e c u s)
           = ToSocket c (session_created sessionId) # broadcastLeaderboard (fst (on_join cfg e c u s))"
    and "database (fst (on_join cfg e c u s)) = database s"
    and "awaiting (fst (on_join cfg e c u s)) = awaiting s"
  using assms by (simp_all add: on_join_def Let_def)

lemma on_join_unknown_session:
  assumes "playerSessions s (username u) = None"
  shows "awaiting (fst (on_join cfg e c u s)) =
           awaiting s @
             [\<lparr>waiting_socket = c, waiting_key = username u,
               waiting_session = fst (createSession_v1 cfg e (database s) (username u) (apiKey u))\<rparr>]"
    and "database (fst (on_join cfg e c u s))
           = snd (createSession_v1 cfg e (database s) (username u) (apiKey u))"
    and "snd (on_join cfg e c u s) = []"
  using assms by (simp_all add: on_join_def Let_def split: prod.splits)

lemma on_join_resumed_frame:
  "persistentPlayers (fst (on_join_resumed i s)) = persistentPlayers s"
  "socketPlayers (fst (on_join_resumed i s)) = socketPlayers s"
  "database (fst (on_join_resumed i s)) = database s"
  by (simp_all add: on_join_resumed_def Let_def)

lemma on_join_resumed_sessions:
  "i < length (awaiting s) \<Longrightarrow>
   playerSessions (fst (on_join_resumed i s)) =
     (playerSessions s)(waiting_key (awaiting s ! i) \<mapsto> row_id (waiting_session (awaiting s ! i)))"
  by (simp add: on_join_resumed_def Let_def)

text \<open>
  A first join that resumes before anything else is handled stores the id of the session
  that \<open>createSession\<close> returned.
\<close>

lemma first_join_alone:
  assumes "playerSessions s (username u) = None"
  shows "playerSessions (run cfg [Join e c u, JoinResumed (length (awaiting s))] s) (username u)
           = Some (row_id (fst (createSession_v1 cfg e (database s) (username u) (apiKey u))))"
  using assms
  by (simp add: on_join_resumed_sessions on_join_unknown_session on_join_sessions)

text \<open>
  Once an id is stored for a name and no handler is suspended for that name, the id stays,
  whatever is handled next.
\<close>

lemma handle_session_kept:
  assumes stored: "playerSessions s n = Some sessionId"
    and settled: "n \<notin> waiting_key ` set (awaiting s)"
  shows "playerSessions (fst (handle cfg ev s)) n = Some sessionId
       \<and> n \<notin> waiting_key ` set (awaiting (fst (handle cfg ev s)))"
proof (cases ev)
  case (Join e c u)
  show ?thesis
  proof (cases "playerSessions s (username u)")
    case None
    with stored have "username u \<noteq> n" by auto
    with Join None stored settled show ?thesis
      by (simp add: on_join_sessions on_join_unknown_session)
  next
    case (Some known)
    with Join stored settled show ?thesis
      by (simp add: on_join_sessions on_join_known_session)
  qed
next
  case (JoinResumed i)
  show ?thesis
  proof (cases "i < length (awaiting s)")
    case True
    then have "awaiting s ! i \<in> set (awaiting s)" by simp
    with settled have other: "waiting_key (awaiting s ! i) \<noteq> n" by blast
    have "set (take i (awaiting s) @ drop (Suc i) (awaiting s)) \<subseteq> set (awaiting s)"
      using set_take_subset [of i "awaiting s"] set_drop_subset [of "Suc i" "awaiting s"]
      by auto
    with settled have "n \<notin> waiting_key ` set (take i (awaiting s) @ drop (Suc i) (awaiting s))"
      by blast
    with JoinResumed True other stored show ?thesis
      by (simp add: on_join_resumed_def Let_def)
  next
    case False
    with JoinResumed stored settled show ?thesis
      by (simp add: on_join_resumed_def)
  qed
next
  case (UpdateProgress c d)
  with stored settled show ?thesis
    by (simp add: on_update_progress_def Let_def split: option.splits)
next
  case (RoundComplete e c k d)
  with stored settled show ?thesis
    by (simp add: on_round_complete_def split: option.splits prod.splits)
next
  case (GameComplete e c d)
  with stored settled show ?thesis
    by (simp add: on_game_complete_def split: option.splits prod.splits)
next
  case (Disconnect c)
  with stored settled show ?thesis
    by (simp add: on_disconnect_def split: option.splits)
next
  case (Connection c)
  with stored settled show ?thesis
    by (simp add: on_connection_def)
qed

lemma run_session_kept:
  "playerSessions s n = Some sessionId \<Longrightarrow> n \<notin> waiting_key ` set (awaiting s) \<Longrightarrow>
   playerSessions (run cfg evs s) n = Some sessionId"
proof (induction evs arbitrary: s)
  case Nil
  then show ?case by simp
next
  case (Cons ev evs)
  from handle_session_kept [OF Cons.prems, of cfg ev] Cons.IH [of "fst (handle cfg ev s)"]
  show ?case by simp
qed

text \<open>One profile per display name, through every schedule of joins and resumptions.\<close>

lemma names_update:
  assumes "map (\<lambda>kp. username (snd kp)) al = map fst al" and "username p = k"
  shows "map (\<lambda>kp. username (snd kp)) (AList.update k p al) = map fst (AList.update k p al)"
  using assms by (induction al) auto

lemma map_of_named:
  assumes "map (\<lambda>kp. username (snd kp)) al = map fst al" and "map_of al k = Some p"
  shows "username p = k"
  using assms by (induction al) (auto split: if_splits)

lemma on_join_keeps_one_profile_per_name:
  assumes "one_profile_per_name s"
  shows "one_profile_per_name (fst (on_join cfg e c u s))"
proof -
  let ?player = "let player0 = (case map_of (persistentPlayers s) (username u) of
                       Some p \<Rightarrow> p
                     | None \<Rightarrow> \<lparr>username = username u, avatarUrl = avatarUrl u, score = 0,
                                status = ''Just Joined'', isBot = False\<rparr>)
        in if truthy_opt (avatarUrl u) then player0\<lparr>avatarUrl := avatarUrl u\<rparr> else player0"
  from assms have d: "distinct (map fst (persistentPlayers s))"
    and n: "map (\<lambda>kp. username (snd kp)) (persistentPlayers s) = map fst (persistentPlayers s)"
    by (simp_all add: one_profile_per_name_def)
  have "username ?player = username u"
    using map_of_named [OF n] by (auto simp: Let_def split: option.splits)
  with names_update [OF n] AList.distinct_update [OF d]
  show ?thesis
    unfolding one_profile_per_name_def on_join_players by blast
qed

lemma run_joins_keep_one_profile_per_name:
  "list_all is_join evs \<Longrightarrow> one_profile_per_name s \<Longrightarrow> one_profile_per_name (run cfg evs s)"
proof (induction evs arbitrary: s)
  case Nil
  then show ?case by simp
next
  case (Cons ev evs)
  have "one_profile_per_name (fst (handle cfg ev s))"
  proof (cases ev)
    case (Join e c u)
    with Cons.prems show ?thesis
      by (simp add: on_join_keeps_one_profile_per_name)
  next
    case (JoinResumed i)
    with Cons.prems show ?thesis
      by (simp add: one_profile_per_name_def on_join_resumed_frame)
  qed (use Cons.prems in simp_all)
  with Cons show ?case by simp
qed

lemma boot_one_profile_per_name: "one_profile_per_name (boot st)"
  by (simp add: one_profile_per_name_def boot_def)

lemma update_keys_known:
  "map_of al k = Some p \<Longrightarrow> map fst (AList.update k v al) = map fst al"
  by (induction al) (auto split: if_splits)

text \<open>
  A join under a known name keeps the profile, score and status included, and its place;
  the avatar is overwritten only when the payload brings a truthy one.
\<close>

lemma on_join_merges:
  assumes "map_of (persistentPlayers s) (username u) = Some p"
  shows "map_of (persistentPlayers (fst (on_join cfg e c u s))) (username u)
          = Some (if truthy_opt (avatarUrl u) then p\<lparr>avatarUrl := avatarUrl u\<rparr> else p)"
    and "map fst (persistentPlayers (fst (on_join cfg e c u s))) = map fst (persistentPlayers s)"
  using assms by (simp_all add: on_join_players AList.update_conv' update_keys_known Let_def)

lemma both_waiting_state:
  "playerSessions both_waiting ''alice'' = None"
  "map waiting_socket (awaiting both_waiting) = [''s1'', ''s2'']"
  "map waiting_key (awaiting both_waiting) = [''alice'', ''alice'']"
  "map (\<lambda>w. row_id (waiting_session w)) (awaiting both_waiting) = [''7f3a'', ''9c1e'']"
  "map row_id (table (database both_waiting)) = [''7f3a'', ''9c1e'']"
  "map fst (persistentPlayers both_waiting) = [''alice'']"
  by (simp_all add: both_waiting_def on_join_def boot_def alice_def createSession_v1_def
      online_configured db_insert_def contacted_def empty_store_def another_reply_def fine_def
      hashApiKey_def Let_def)

text \<open>
  Joins of one name that take their turn share one session: when the first handler has
  resumed before the second join arrives, the second is answered with the stored id and
  the store holds one session.
\<close>

lemma joins_in_turn_share_session:
  "playerSessions
     (run online [Join fine ''s1'' alice, JoinResumed 0, Join another_reply ''s2'' alice]
        (boot empty_store)) ''alice'' = Some ''7f3a''"
  "map row_id (table (database
     (run online [Join fine ''s1'' alice, JoinResumed 0, Join another_reply ''s2'' alice]
        (boot empty_store)))) = [''7f3a'']"
  "hd (snd (on_join online another_reply ''s2'' alice
     (run online [Join fine ''s1'' alice, JoinResumed 0] (boot empty_store))))
     = ToSocket ''s2'' (session_created ''7f3a'')"
  by (simp_all add: on_join_def on_join_resumed_def boot_def alice_def createSession_v1_def
      online_configured db_insert_def contacted_def empty_store_def another_reply_def fine_def
      hashApiKey_def Let_def)

text \<open>
  C2 at the failing input. With the store configured, socket s1 joins as Alice and, while
  that handler awaits \<open>createSession\<close>, socket s2 joins as Alice too. No id is stored yet, so
  the second handler calls \<open>createSession\<close> as well: the store holds two sessions for the
  one name. When the first handler resumes, id 7f3a is stored and sent to s1; when the
  second resumes, the stored id is overwritten with 9c1e, which is sent to s2. The
  scoreboard holds one profile throughout.
\<close>

theorem C2_overlapping_joins_create_two_sessions:
  "playerSessions both_waiting ''alice'' = None
   \<and> map row_id (table (database both_waiting)) = [''7f3a'', ''9c1e'']
   \<and> playerSessions first_resumed ''alice'' = Some ''7f3a''
   \<and> hd (snd (on_join_resumed 0 both_waiting)) = ToSocket ''s1'' (session_created ''7f3a'')
   \<and> playerSessions second_resumed ''alice'' = Some ''9c1e''
   \<and> hd (snd (on_join_resumed 0 first_resumed)) = ToSocket ''s2'' (session_created ''9c1e'')
   \<and> second_resumed
       = run online [Join fine ''s1'' alice, Join another_reply ''s2'' alice,
                     JoinResumed 0, JoinResumed 0] (boot empty_store)
   \<and> map row_id (table (database second_resumed)) = [''7f3a'', ''9c1e'']
   \<and> map fst (persistentPlayers second_resumed) = [''alice'']"
proof -
  have two: "length (awaiting both_waiting) = 2"
    using both_waiting_state(2) by (metis length_map length_Cons list.size(3) numeral_2_eq_2)
  obtain w1 w2 where ws: "awaiting both_waiting = [w1, w2]"
    using two by (metis (no_types) length_0_conv length_Suc_conv numeral_2_eq_2)
  with both_waiting_state(2,3,4)
  have w1: "waiting_socket w1 = ''s1''" "waiting_key w1 = ''alice''"
      "row_id (waiting_session w1) = ''7f3a''"
    and w2: "waiting_socket w2 = ''s2''" "waiting_key w2 = ''alice''"
      "row_id (waiting_session w2) = ''9c1e''"
    by simp_all
  have a1: "awaiting first_resumed = [w2]"
    by (simp add: first_resumed_def on_join_resumed_def ws Let_def)
  have s1: "playerSessions first_resumed ''alice'' = Some ''7f3a''"
    by (simp add: first_resumed_def on_join_resumed_def ws w1 Let_def)
  have e1: "hd (snd (on_join_resumed 0 both_waiting)) = ToSocket ''s1'' (session_created ''7f3a'')"
    by (simp add: on_join_resumed_def ws w1 Let_def)
  have s2: "playerSessions second_resumed ''alice'' = Some ''9c1e''"
    by (simp add: second_resumed_def on_join_resumed_def a1 w2 Let_def)
  have e2: "hd (snd (on_join_resumed 0 first_resumed)) = ToSocket ''s2'' (session_created ''9c1e'')"
    by (simp add: on_join_resumed_def a1 w2 Let_def)
  have r: "second_resumed
       = run online [Join fine ''s1'' alice, Join another_reply ''s2'' alice,
                     JoinResumed 0, JoinResumed 0] (boot empty_store)"
    by (simp add: second_resumed_def first_resumed_def both_waiting_def)
  have d: "map row_id (table (database second_resumed)) = [''7f3a'', ''9c1e'']"
    by (simp add: second_resumed_def first_resumed_def on_join_resumed_frame both_waiting_state)
  have p: "map fst (persistentPlayers second_resumed) = [''alice'']"
    by (simp add: second_resumed_def first_resumed_def on_join_resumed_frame both_waiting_state)
  from both_waiting_state(1,5) s1 e1 s2 e2 r d p show ?thesis by blast
qed

lemma nameless_joined_state:
  "socketPlayers nameless_joined ''s9'' = Some []"
  "persistentPlayers nameless_joined =
     [([], \<lparr>username = [], avatarUrl = None, score = 0, status = ''Just Joined'', isBot = False\<rparr>)]"
  by (simp_all add: nameless_joined_def on_join_sockets on_join_players nameless_def boot_def)

text \<open>Every bound name has a profile, from process start on.\<close>

lemma handle_bound_has_profile:
  assumes "\<And>c k. socketPlayers s c = Some k \<Longrightarrow> map_of (persistentPlayers s) k \<noteq> None"
    and "socketPlayers (fst (handle cfg ev s)) c = Some k"
  shows "map_of (persistentPlayers (fst (handle cfg ev s))) k \<noteq> None"
proof (cases ev)
  case (Join e c' u)
  with assms show ?thesis
    by (auto simp: on_join_sockets on_join_players AList.update_conv' split: if_splits)
next
  case (JoinResumed i)
  with assms show ?thesis
    by (auto simp: on_join_resumed_frame)
next
  case (UpdateProgress c' d)
  with assms show ?thesis
    by (auto simp: on_update_progress_def Let_def AList.update_conv' split: option.splits if_splits)
next
  case (RoundComplete e c' n d)
  with assms show ?thesis
    by (auto simp: on_round_complete_def split: option.splits if_splits prod.splits)
next
  case (GameComplete e c' d)
  with assms show ?thesis
    by (auto simp: on_game_complete_def split: option.splits if_splits prod.splits)
next
  case (Disconnect c')
  with assms show ?thesis
    by (auto simp: on_disconnect_def split: option.splits if_splits)
next
  case (Connection c')
  with assms show ?thesis
    by (auto simp: on_connection_def)
qed

lemma run_bound_has_profile:
  assumes "\<And>c k. socketPlayers s c = Some k \<Longrightarrow> map_of (persistentPlayers s) k \<noteq> None"
    and "socketPlayers (run cfg evs s) c = Some k"
  shows "map_of (persistentPlayers (run cfg evs s)) k \<noteq> None"
  using assms
proof (induction evs arbitrary: s)
  case Nil
  then show ?case by simp
next
  case (Cons ev evs)
  have "map_of (persistentPlayers (run cfg evs (fst (handle cfg ev s)))) k \<noteq> None"
  proof (rule Cons.IH [of "fst (handle cfg ev s)"])
    show "map_of (persistentPlayers (fst (handle cfg ev s))) k' \<noteq> None"
      if "socketPlayers (fst (handle cfg ev s)) c' = Some k'" for c' k'
      using handle_bound_has_profile [of s cfg ev c' k'] Cons.prems(1) that by blast
    show "socketPlayers (run cfg evs (fst (handle cfg ev s))) c = Some k"
      using Cons.prems(2) by simp
  qed
  then show ?case by simp
qed

lemma boot_run_bound_has_profile:
  "socketPlayers (run cfg evs (boot st)) c = Some k \<Longrightarrow>
   map_of (persistentPlayers (run cfg evs (boot st))) k \<noteq> None"
  by (rule run_bound_has_profile [of "boot st"]) (simp_all add: boot_def)

text \<open>
  For a connection bound to a non-empty name, a disconnect removes the binding and nothing
  else, a later join under the name finds the profile with its score, and an update is
  merged into the profile. An update from an unbound connection changes nothing.
\<close>

lemma on_disconnect_named:
  assumes "socketPlayers s c = Some k" and "truthy k"
  shows "on_disconnect c s = (s\<lparr>socketPlayers := (socketPlayers s)(c := None)\<rparr>, [])"
  using assms by (simp add: on_disconnect_def)

lemma on_disconnect_frame:
  "persistentPlayers (fst (on_disconnect c s)) = persistentPlayers s"
  "playerSessions (fst (on_disconnect c s)) = playerSessions s"
  "database (fst (on_disconnect c s)) = database s"
  "c' \<noteq> c \<Longrightarrow> socketPlayers (fst (on_disconnect c s)) c' = socketPlayers s c'"
  by (simp_all add: on_disconnect_def split: option.splits)

lemma rejoin_resumes_score:
  assumes "map_of (persistentPlayers s) (username u) = Some p"
  shows "map_option score
           (map_of (persistentPlayers (fst (on_join cfg e c' u (fst (on_disconnect c s)))))
              (username u))
         = Some (score p)"
  using assms
  by (simp add: on_join_players on_disconnect_frame AList.update_conv' Let_def)

lemma on_update_progress_unbound:
  "socketPlayers s c = None \<Longrightarrow> on_update_progress c d s = (s, [])"
  by (simp add: on_update_progress_def)

lemma on_update_progress_named:
  assumes "socketPlayers s c = Some k" and "truthy k" and "map_of (persistentPlayers s) k = Some p"
  shows "on_update_progress c d s =
     (s\<lparr>persistentPlayers := AList.update k (spread p d) (persistentPlayers s)\<rparr>,
      broadcastLeaderboard
        (s\<lparr>persistentPlayers := AList.update k (spread p d) (persistentPlayers s)\<rparr>))"
  using assms by (simp add: on_update_progress_def Let_def)

text \<open>
  C6 at the failing input. A socket joins with the empty string as name and disconnects:
  the handler reads the binding, finds the name falsy and returns without deleting it.
\<close>

theorem C6_disconnect_keeps_binding_of_empty_name:
  "socketPlayers nameless_joined ''s9'' = Some []
   \<and> on_disconnect ''s9'' nameless_joined = (nameless_joined, [])
   \<and> socketPlayers (fst (on_disconnect ''s9'' nameless_joined)) ''s9'' = Some []"
  by (simp add: on_disconnect_def nameless_joined_state truthy_def)

text \<open>
  C8 at the failing input. The socket bound to the empty name sends a score: the handler
  resolves the binding, finds the name falsy and drops the update, although the profile
  is there.
\<close>

theorem C8_update_dropped_for_empty_name:
  "socketPlayers nameless_joined ''s9'' = Some []
   \<and> map_option score (map_of (persistentPlayers nameless_joined) []) = Some 0
   \<and> on_update_progress ''s9'' [Score 40] nameless_joined = (nameless_joined, [])
   \<and> map_option score
        (map_of (persistentPlayers (fst (on_update_progress ''s9'' [Score 40] nameless_joined))) [])
       = Some 0"
  by (simp add: on_update_progress_def nameless_joined_state truthy_def)

text \<open>Both hold as well once the suspended join handler of that socket has resumed.\<close>

lemma empty_name_after_resumption:
  "on_disconnect ''s9'' (fst (on_join_resumed 0 nameless_joined))
     = (fst (on_join_resumed 0 nameless_joined), [])"
  "on_update_progress ''s9'' [Score 40] (fst (on_join_resumed 0 nameless_joined))
     = (fst (on_join_resumed 0 nameless_joined), [])"
  by (simp_all add: on_disconnect_def on_update_progress_def on_join_resumed_frame
      nameless_joined_state truthy_def)

lemma createSession_row:
  assumes "isSupabaseConfigured cfg" and "answered e"
  shows "row_cols (fst (createSession cfg e st playerName avatar)) ''avatar_url'' =
     Some (JStr (case avatar of
                   Some a \<Rightarrow> if truthy a then a else default_avatar playerName
                 | None \<Rightarrow> default_avatar playerName))"
  using assms by (simp add: createSession_def db_insert_def Let_def)

text \<open>
  C9 (as the code has it). A join that brings no truthy avatar creates, for a new name,
  the profile with the avatar field exactly as sent. The generated placeholder, a fixed
  URL ending in the player name, is what \<open>createSession\<close> of the service with round saves
  writes to the \<open>avatar_url\<close> column of the inserted session row when it is given no
  truthy avatar.
\<close>

theorem C9_profile_avatar_as_sent_row_avatar_generated:
  "(\<not> truthy_opt (avatarUrl u) \<and> map_of (persistentPlayers s) (username u) = None \<longrightarrow>
      map_of (persistentPlayers (fst (on_join cfg e c u s))) (username u)
        = Some \<lparr>username = username u, avatarUrl = avatarUrl u, score = 0,
                status = ''Just Joined'', isBot = False\<rparr>)
   \<and> (isSupabaseConfigured cfg \<and> answered e \<and> \<not> truthy_opt avatar \<longrightarrow>
      row_cols (fst (createSession cfg e st playerName avatar)) ''avatar_url''
        = Some (JStr (''https://api.dicebear.com/7.x/bottts/svg?seed='' @ playerName)))"
proof -
  have profile: "\<not> truthy_opt (avatarUrl u) \<and> map_of (persistentPlayers s) (username u) = None \<longrightarrow>
      map_of (persistentPlayers (fst (on_join cfg e c u s))) (username u)
        = Some \<lparr>username = username u, avatarUrl = avatarUrl u, score = 0,
                status = ''Just Joined'', isBot = False\<rparr>"
    by (simp add: on_join_players AList.update_conv' Let_def)
  have row: "isSupabaseConfigured cfg \<and> answered e \<and> \<not> truthy_opt avatar \<longrightarrow>
      row_cols (fst (createSession cfg e st playerName avatar)) ''avatar_url''
        = Some (JStr (''https://api.dicebear.com/7.x/bottts/svg?seed='' @ playerName))"
    by (cases avatar) (auto simp: createSession_row default_avatar_def)
  from profile row show ?thesis by blast
qed

theorem C9_profile_avatar_as_sent_row_avatar_generated_witness:
  "\<not> truthy_opt (avatarUrl alice) \<and> map_of (persistentPlayers (boot empty_store)) (username alice) = None
   \<and> map_of (persistentPlayers (fst (on_join online fine ''s1'' alice (boot empty_store)))) ''alice''
        = Some \<lparr>username = ''alice'', avatarUrl = None, score = 0,
                status = ''Just Joined'', isBot = False\<rparr>
   \<and> isSupabaseConfigured online \<and> answered fine \<and> \<not> truthy_opt None
   \<and> row_cols (fst (createSession online fine empty_store ''alice'' None)) ''avatar_url''
        = Some (JStr ''https://api.dicebear.com/7.x/bottts/svg?seed=alice'')"
proof -
  have h: "\<not> truthy_opt (avatarUrl alice) \<and> map_of (persistentPlayers (boot empty_store)) (username alice) = None"
    by (simp add: alice_def boot_def)
  from C9_profile_avatar_as_sent_row_avatar_generated
         [of alice "boot empty_store" online fine "''s1''" None empty_store "''alice''"] h
  show ?thesis
    by (simp add: online_configured answered_fine alice_def)
qed

text \<open>
  C9 (as stated) fails. Alice joins with no avatar: the profile created for her has no
  avatar, with the store configured or not.
\<close>

theorem C9_profile_without_avatar_counterexample:
  "avatarUrl alice = None
   \<and> map_option avatarUrl
       (map_of (persistentPlayers (fst (on_join online fine ''s1'' alice (boot empty_store)))) ''alice'')
      = Some None
   \<and> map_option avatarUrl
       (map_of (persistentPlayers (fst (on_join offline down ''s1'' alice (boot empty_store)))) ''alice'')
      = Some None"
  by (simp add: on_join_players AList.update_conv' alice_def boot_def)

end
